theory Spec2Isabelle
  imports Complex_Main
begin

section \<open>Data model\<close>

text \<open>
  The embedding follows \<^verbatim>\<open>src/database/schema.ts\<close> (the table, \<^verbatim>\<open>VectorManager\<close> and
  \<^verbatim>\<open>VectorRepository\<close>), the chunker and the file utilities. JavaScript numbers that
  hold line numbers, sizes and modification times are integers. The components of an
  embedding and the similarities are of a type \<open>'n\<close> that is left open, with \<open>0\<close> and \<open>1\<close>
  for the two literals that the code writes; the operations on them are the fields of
  the record \<open>arith\<close> below, of which nothing is assumed, so that the doubles of IEEE 754
  with their rounding, their infinities and NaN are one instance. Strings
  are \<open>string\<close>; record fields carry a short prefix because several source types share
  the field names \<^verbatim>\<open>path\<close>, \<^verbatim>\<open>mtime\<close> and \<^verbatim>\<open>content\<close>.
\<close>

text \<open>A thrown JavaScript value: the optional \<^verbatim>\<open>status\<close> property, whether it is an
  \<^verbatim>\<open>instanceof EmbeddingError\<close>, and its message.\<close>

datatype js_error = JsError (err_status: "nat option") (err_isEmbeddingError: bool) (err_message: string)

definition Error :: "string \<Rightarrow> js_error" where
  "Error msg = JsError None False msg"

definition EmbeddingError :: "string \<Rightarrow> js_error" where
  "EmbeddingError msg = JsError None True msg"

definition IndexingError :: "string \<Rightarrow> js_error" where
  "IndexingError msg = JsError None False msg"

definition SyntaxError :: "string \<Rightarrow> js_error" where
  "SyntaxError msg = JsError None False msg"

record VectorMetaData =
  startLine :: int
  endLine :: int
  skipped :: "bool option"
  reason :: "string option"
  originalSize :: "nat option"

text \<open>\<^verbatim>\<open>InsertEmbedding\<close>: a row of the \<^verbatim>\<open>embeddings\<close> table (the serial \<^verbatim>\<open>id\<close> is
  assigned by the database and read by no operation below).\<close>

record 'n InsertEmbedding =
  workspaceId :: string
  row_path :: string
  row_mtime :: int
  row_content :: string
  row_model :: string
  row_dimension :: nat
  embedding :: "'n list"
  metadata :: VectorMetaData

record FileStat =
  st_mtime :: int
  st_size :: nat

record FileInfo =
  path :: string
  stat :: FileStat

record EmbeddingModelClient =
  model_id :: string
  dimension :: nat

text \<open>The declared type of the \<^verbatim>\<open>embedding\<close> column, as the two introspection queries
  see it.\<close>

datatype column_type = NoTable | VectorCol nat | VectorUnsized | JsonbCol | UnsupportedCol

record 'n database =
  rows :: "'n InsertEmbedding list"
  embeddingColumn :: column_type
  advisoryLocks :: "int list"

section \<open>VectorRepository\<close>

subsection \<open>Advisory locks\<close>

text \<open>\<^verbatim>\<open>hash & hash\<close> and \<^verbatim>\<open>hash << 5\<close> convert to a signed 32-bit integer.\<close>

definition toInt32 :: "int \<Rightarrow> int" where
  "toInt32 x = (x + 2 ^ 31) mod 2 ^ 32 - 2 ^ 31"

fun hashLoop :: "int \<Rightarrow> string \<Rightarrow> int" where
  "hashLoop hash [] = hash"
| "hashLoop hash (c # cs) = hashLoop (toInt32 ((toInt32 (hash * 2 ^ 5) - hash) + of_char c)) cs"

definition workspaceIdToLockKey :: "string \<Rightarrow> int" where
  "workspaceIdToLockKey wsId = \<bar>hashLoop 0 wsId\<bar>"

text \<open>\<^verbatim>\<open>pg_advisory_lock\<close> and \<^verbatim>\<open>pg_advisory_unlock\<close> on the session of this process: a
  session may hold a key several times, and unlocking gives one holding back. Waiting
  for another session is outside this sequential model.\<close>

definition acquireAdvisoryLock :: "string \<Rightarrow> 'n database \<Rightarrow> 'n database" where
  "acquireAdvisoryLock wsId db = db\<lparr>advisoryLocks := workspaceIdToLockKey wsId # advisoryLocks db\<rparr>"

definition releaseAdvisoryLock :: "string \<Rightarrow> 'n database \<Rightarrow> 'n database" where
  "releaseAdvisoryLock wsId db = db\<lparr>advisoryLocks := remove1 (workspaceIdToLockKey wsId) (advisoryLocks db)\<rparr>"

text \<open>\<^verbatim>\<open>try { return await fn() } finally { await release }\<close>: the outcome of \<open>fn\<close>, a
  value or a thrown error, is passed on after the release.\<close>

definition withAdvisoryLock ::
  "string \<Rightarrow> ('n database \<Rightarrow> (js_error + 'a) \<times> 'n database) \<Rightarrow> 'n database \<Rightarrow> (js_error + 'a) \<times> 'n database" where
  "withAdvisoryLock wsId fn db =
     (let db1 = acquireAdvisoryLock wsId db;
          (res, db2) = fn db1
      in (res, releaseAdvisoryLock wsId db2))"

subsection \<open>Cosine similarity\<close>

text \<open>The operations of JavaScript on numbers that the repository uses: \<^verbatim>\<open>+\<close>, \<^verbatim>\<open>-\<close>,
  \<^verbatim>\<open>*\<close>, \<^verbatim>\<open>/\<close>, \<^verbatim>\<open>Math.sqrt\<close>, \<^verbatim>\<open>===\<close> and \<^verbatim>\<open><\<close>.\<close>

record 'n arith =
  num_add :: "'n \<Rightarrow> 'n \<Rightarrow> 'n"
  num_sub :: "'n \<Rightarrow> 'n \<Rightarrow> 'n"
  num_mul :: "'n \<Rightarrow> 'n \<Rightarrow> 'n"
  num_div :: "'n \<Rightarrow> 'n \<Rightarrow> 'n"
  num_sqrt :: "'n \<Rightarrow> 'n"
  num_eq :: "'n \<Rightarrow> 'n \<Rightarrow> bool"
  num_lt :: "'n \<Rightarrow> 'n \<Rightarrow> bool"

text \<open>The loop of \<^verbatim>\<open>calculateCosineSimilarity\<close> over the indices of \<^verbatim>\<open>vectorA\<close>, on
  vectors of the same length.\<close>

fun cosineLoop :: "'n arith \<Rightarrow> 'n list \<Rightarrow> 'n list \<Rightarrow> 'n \<times> 'n \<times> 'n \<Rightarrow> 'n \<times> 'n \<times> 'n" where
  "cosineLoop ar (a # as) (b # bs) (dotProduct, magnitudeA, magnitudeB) =
     cosineLoop ar as bs
       (num_add ar dotProduct (num_mul ar a b), num_add ar magnitudeA (num_mul ar a a),
        num_add ar magnitudeB (num_mul ar b b))"
| "cosineLoop ar _ _ acc = acc"

definition calculateCosineSimilarity :: "('n::zero) arith \<Rightarrow> 'n list \<Rightarrow> 'n list \<Rightarrow> js_error + 'n" where
  "calculateCosineSimilarity ar vectorA vectorB =
     (if length vectorA \<noteq> length vectorB then Inl (Error ''Vector dimensions must match'')
      else
        (let (dotProduct, sumA, sumB) = cosineLoop ar vectorA vectorB (0, 0, 0);
             magnitudeA = num_sqrt ar sumA;
             magnitudeB = num_sqrt ar sumB
         in if num_eq ar magnitudeA 0 \<or> num_eq ar magnitudeB 0 then Inr 0
            else Inr (num_div ar dotProduct (num_mul ar magnitudeA magnitudeB))))"

text \<open>The quantities that the description of the function names: the dot product of two
  vectors, summed from the left, and the magnitude of a vector, the square root of its
  dot product with itself.\<close>

definition dot :: "('n::zero) arith \<Rightarrow> 'n list \<Rightarrow> 'n list \<Rightarrow> 'n" where
  "dot ar a b = foldl (\<lambda>s (x, y). num_add ar s (num_mul ar x y)) 0 (zip a b)"

definition magnitude :: "('n::zero) arith \<Rightarrow> 'n list \<Rightarrow> 'n" where
  "magnitude ar a = num_sqrt ar (dot ar a a)"

subsection \<open>Schema introspection\<close>

text \<open>\<^verbatim>\<open>detectEmbeddingColumnType\<close>: \<open>True\<close> for the native vector type, \<open>False\<close> for
  the legacy JSONB column; it throws when the column is missing or has another type.\<close>

definition detectEmbeddingColumnType :: "'n database \<Rightarrow> js_error + bool" where
  "detectEmbeddingColumnType db =
     (case embeddingColumn db of
        NoTable \<Rightarrow> Inl (Error ''embedding column not found in embeddings table'')
      | VectorCol n \<Rightarrow> Inr True
      | VectorUnsized \<Rightarrow> Inr True
      | JsonbCol \<Rightarrow> Inr False
      | UnsupportedCol \<Rightarrow> Inl (Error ''Unsupported embedding column type''))"

subsection \<open>Row operations\<close>

text \<open>\<^verbatim>\<open>[...new Set(xs)]\<close>: the first occurrence of every element, in order.\<close>

definition js_unique :: "'a list \<Rightarrow> 'a list" where
  "js_unique xs = foldl (\<lambda>acc x. if x \<in> set acc then acc else acc @ [x]) [] xs"

definition getIndexedFilePaths :: "string \<Rightarrow> EmbeddingModelClient \<Rightarrow> 'n database \<Rightarrow> string list" where
  "getIndexedFilePaths wsId em db =
     js_unique (map row_path
       (filter (\<lambda>r. workspaceId r = wsId \<and> row_model r = model_id em) (rows db)))"

definition deleteVectorsForMultipleFiles ::
  "string \<Rightarrow> string list \<Rightarrow> EmbeddingModelClient \<Rightarrow> 'n database \<Rightarrow> 'n database" where
  "deleteVectorsForMultipleFiles wsId filePaths em db =
     (if filePaths = [] then db
      else db\<lparr>rows := filter (\<lambda>r. \<not> (workspaceId r = wsId \<and> row_path r \<in> set filePaths
                                      \<and> row_model r = model_id em)) (rows db)\<rparr>)"

text \<open>\<^verbatim>\<open>insertVectors\<close>: the rows are appended. The database is taken to accept them; an
  insert that the database refuses (a vector whose length is not the one of a
  \<^verbatim>\<open>vector(n)\<close> column, for one) throws, and such a run is not described by this model.\<close>

definition insertVectors :: "'n InsertEmbedding list \<Rightarrow> 'n database \<Rightarrow> 'n database" where
  "insertVectors vectors db = (if vectors = [] then db else db\<lparr>rows := rows db @ vectors\<rparr>)"

definition clearAllVectors :: "string \<Rightarrow> EmbeddingModelClient \<Rightarrow> 'n database \<Rightarrow> 'n database" where
  "clearAllVectors wsId em db =
     db\<lparr>rows := filter (\<lambda>r. \<not> (workspaceId r = wsId \<and> row_model r = model_id em)) (rows db)\<rparr>"

text \<open>\<^verbatim>\<open>VectorRepository.deleteVectorsForDeletedFiles\<close>: deletes the rows whose path is
  not among the given ones; with no path given it clears the workspace and model.\<close>

definition repo_deleteVectorsForDeletedFiles ::
  "string \<Rightarrow> string list \<Rightarrow> EmbeddingModelClient \<Rightarrow> 'n database \<Rightarrow> 'n database" where
  "repo_deleteVectorsForDeletedFiles wsId existingFilePaths em db =
     (if existingFilePaths = [] then clearAllVectors wsId em db
      else db\<lparr>rows := filter (\<lambda>r. \<not> (workspaceId r = wsId \<and> row_model r = model_id em
                                      \<and> row_path r \<notin> set existingFilePaths)) (rows db)\<rparr>)"

text \<open>\<^verbatim>\<open>getFileModificationTimes\<close>: \<^verbatim>\<open>mtimeMap.get(path) || 0\<close> is \<open>0\<close> for a missing
  entry and for an entry that is \<open>0\<close>.\<close>

definition mtimeStep :: "(string \<rightharpoonup> int) \<Rightarrow> 'n InsertEmbedding \<Rightarrow> (string \<rightharpoonup> int)" where
  "mtimeStep mtimeMap result =
     (let currentMtime = (case mtimeMap (row_path result) of None \<Rightarrow> 0
                          | Some m \<Rightarrow> if m = 0 then 0 else m)
      in if row_mtime result > currentMtime then mtimeMap(row_path result \<mapsto> row_mtime result)
         else mtimeMap)"

definition getFileModificationTimes ::
  "string \<Rightarrow> string list \<Rightarrow> EmbeddingModelClient \<Rightarrow> 'n database \<Rightarrow> (string \<rightharpoonup> int)" where
  "getFileModificationTimes wsId filePaths em db =
     (if filePaths = [] then Map.empty
      else foldl mtimeStep Map.empty
             (filter (\<lambda>r. workspaceId r = wsId \<and> row_path r \<in> set filePaths
                          \<and> row_model r = model_id em) (rows db)))"

subsection \<open>Similarity search\<close>

record 'n SearchOptions =
  minSimilarity :: 'n
  limit :: nat
  scopeFiles :: "string list option"

text \<open>The conjunction of \<^verbatim>\<open>whereConditions\<close>: workspace, dimension, model, the exclusion of
  skipped marker rows (\<^verbatim>\<open>metadata->>'skipped' IS NULL OR metadata->>'skipped' != 'true'\<close>) and
  the optional file scope.\<close>

definition whereConditions ::
  "string \<Rightarrow> EmbeddingModelClient \<Rightarrow> string list option \<Rightarrow> 'n InsertEmbedding \<Rightarrow> bool" where
  "whereConditions wsId em files r \<longleftrightarrow>
     workspaceId r = wsId \<and> row_dimension r = dimension em \<and> row_model r = model_id em
     \<and> (skipped (metadata r) = None \<or> skipped (metadata r) \<noteq> Some True)
     \<and> (case files of None \<Rightarrow> True | Some fs \<Rightarrow> if fs \<noteq> [] then row_path r \<in> set fs else True)"

text \<open>A stable sort by a comparison, where \<open>before x y\<close> says that \<open>x\<close> has to come before
  \<open>y\<close>: the elements are inserted one after the other, each in front of the first element
  that it has to come before. For a comparison that is a consistent order this is the
  result of every stable sort.\<close>

fun insertSorted :: "('a \<Rightarrow> 'a \<Rightarrow> bool) \<Rightarrow> 'a \<Rightarrow> 'a list \<Rightarrow> 'a list" where
  "insertSorted before x [] = [x]"
| "insertSorted before x (y # ys) =
     (if before x y then x # y # ys else y # insertSorted before x ys)"

definition stableSort :: "('a \<Rightarrow> 'a \<Rightarrow> bool) \<Rightarrow> 'a list \<Rightarrow> 'a list" where
  "stableSort before xs = foldl (\<lambda>acc x. insertSorted before x acc) [] xs"

text \<open>What the database contributes to the native branch: the cosine distance of
  pgvector (the operator \<^verbatim>\<open><=>\<close>) and the order of \<^verbatim>\<open>ORDER BY\<close> on its values. Both are
  parameters.\<close>

record 'n pgvector =
  cosineDistance :: "'n list \<Rightarrow> 'n list \<Rightarrow> 'n"
  orderBefore :: "'n \<Rightarrow> 'n \<Rightarrow> bool"

text \<open>The native branch: the database computes the distance, orders by it and returns
  at most \<open>2 * limit\<close> rows; a result pairs the row with its similarity.\<close>

definition performSimilaritySearchWithPgvector ::
  "('n::one) arith \<Rightarrow> 'n pgvector \<Rightarrow> 'n list \<Rightarrow> ('n InsertEmbedding \<Rightarrow> bool) \<Rightarrow> 'n \<Rightarrow> nat
     \<Rightarrow> 'n database \<Rightarrow> ('n InsertEmbedding \<times> 'n) list" where
  "performSimilaritySearchWithPgvector ar pg queryEmbedding conds minSim lmt db =
     (let results = take (lmt * 2)
            (stableSort (\<lambda>r r'. orderBefore pg (cosineDistance pg (embedding r) queryEmbedding)
                                             (cosineDistance pg (embedding r') queryEmbedding))
               (filter conds (rows db)))
      in take lmt
           (filter (\<lambda>(r, similarity). \<not> num_lt ar similarity minSim)
              (map (\<lambda>r. (r, num_sub ar 1 (cosineDistance pg (embedding r) queryEmbedding))) results)))"

text \<open>What a \<^verbatim>\<open>select()\<close> of whole rows does with the \<^verbatim>\<open>embedding\<close> column. The driver
  hands over the value of a \<^verbatim>\<open>jsonb\<close> column as the array it has parsed already, and
  the value of a \<^verbatim>\<open>vector\<close> column as its text (so is a column of another type taken
  here; \<^verbatim>\<open>detectEmbeddingColumnType\<close> lets no search reach it). The value then goes
  through \<^verbatim>\<open>fromDriver\<close> of the column, which is \<^verbatim>\<open>JSON.parse\<close>. \<^verbatim>\<open>JSON.parse\<close> converts its
  argument to a string first: the text of a vector parses to the array; the array
  \<^verbatim>\<open>[x]\<close> becomes the text of \<open>x\<close> and parses to a number, not an array; the empty array becomes
  the empty text and a longer array a text with commas, which are not JSON, and
  \<^verbatim>\<open>JSON.parse\<close> throws a \<^verbatim>\<open>SyntaxError\<close> (its message is the engine's).\<close>

datatype 'n driver_value = PgText "'n list" | PgParsed "'n list"

datatype 'n js_value = JsArray "'n list" | JsNumber

definition selectEmbedding :: "column_type \<Rightarrow> 'n list \<Rightarrow> 'n driver_value" where
  "selectEmbedding c v = (case c of JsonbCol \<Rightarrow> PgParsed v | _ \<Rightarrow> PgText v)"

definition fromDriver :: "'n driver_value \<Rightarrow> js_error + 'n js_value" where
  "fromDriver value =
     (case value of
        PgText v \<Rightarrow> Inr (JsArray v)
      | PgParsed v \<Rightarrow>
          (case v of
             [x] \<Rightarrow> Inr JsNumber
           | _ \<Rightarrow> Inl (SyntaxError ''JSON.parse: unexpected input'')))"

text \<open>The rows that the query of the fallback returns: every row is decoded before the
  query returns, and the first row that fails to decode makes the query throw.\<close>

fun decodeRows ::
  "column_type \<Rightarrow> 'n InsertEmbedding list \<Rightarrow> js_error + ('n InsertEmbedding \<times> 'n js_value) list" where
  "decodeRows c [] = Inr []"
| "decodeRows c (r # rs) =
     (case fromDriver (selectEmbedding c (embedding r)) of
        Inl e \<Rightarrow> Inl e
      | Inr v \<Rightarrow>
          (case decodeRows c rs of
             Inl e \<Rightarrow> Inl e
           | Inr rest \<Rightarrow> Inr ((r, v) # rest)))"

text \<open>The \<^verbatim>\<open>map\<close> and \<^verbatim>\<open>filter\<close> of the fallback: a row whose decoded embedding is no
  array gives \<^verbatim>\<open>null\<close> and is dropped, as is a row below the threshold; an error of
  \<^verbatim>\<open>calculateCosineSimilarity\<close> ends the search.\<close>

fun similarities ::
  "('n::zero) arith \<Rightarrow> 'n list \<Rightarrow> 'n \<Rightarrow> ('n InsertEmbedding \<times> 'n js_value) list
     \<Rightarrow> js_error + ('n InsertEmbedding \<times> 'n) list" where
  "similarities ar queryEmbedding minSim [] = Inr []"
| "similarities ar queryEmbedding minSim ((r, JsNumber) # rs) =
     similarities ar queryEmbedding minSim rs"
| "similarities ar queryEmbedding minSim ((r, JsArray v) # rs) =
     (case calculateCosineSimilarity ar queryEmbedding v of
        Inl e \<Rightarrow> Inl e
      | Inr similarity \<Rightarrow>
          (case similarities ar queryEmbedding minSim rs of
             Inl e \<Rightarrow> Inl e
           | Inr rest \<Rightarrow> Inr (if num_lt ar similarity minSim then rest else (r, similarity) # rest)))"

text \<open>The JSONB fallback: every candidate row is fetched and compared in memory, and the
  results are sorted with the comparison \<^verbatim>\<open>(a, b) => b.similarity - a.similarity\<close>, which
  puts \<open>a\<close> before \<open>b\<close> when it is negative.\<close>

definition performSimilaritySearchWithJavaScript ::
  "('n::zero) arith \<Rightarrow> 'n list \<Rightarrow> ('n InsertEmbedding \<Rightarrow> bool) \<Rightarrow> 'n \<Rightarrow> nat \<Rightarrow> 'n database
     \<Rightarrow> js_error + ('n InsertEmbedding \<times> 'n) list" where
  "performSimilaritySearchWithJavaScript ar queryEmbedding conds minSim lmt db =
     (case decodeRows (embeddingColumn db) (filter conds (rows db)) of
        Inl e \<Rightarrow> Inl e
      | Inr dbResults \<Rightarrow>
          (case similarities ar queryEmbedding minSim dbResults of
             Inl e \<Rightarrow> Inl e
           | Inr resultsWithSimilarity \<Rightarrow>
               Inr (take lmt
                      (stableSort (\<lambda>a b. num_lt ar (num_sub ar (snd b) (snd a)) 0)
                         resultsWithSimilarity))))"

definition performSimilaritySearch ::
  "('n::{zero,one}) arith \<Rightarrow> 'n pgvector \<Rightarrow> string \<Rightarrow> 'n list \<Rightarrow> EmbeddingModelClient
     \<Rightarrow> 'n SearchOptions \<Rightarrow> 'n database \<Rightarrow> js_error + ('n InsertEmbedding \<times> 'n) list" where
  "performSimilaritySearch ar pg wsId queryEmbedding em options db =
     (case detectEmbeddingColumnType db of
        Inl e \<Rightarrow> Inl e
      | Inr isVector \<Rightarrow>
          (let conds = whereConditions wsId em (scopeFiles options)
           in if isVector
              then Inr (performSimilaritySearchWithPgvector ar pg queryEmbedding conds
                          (minSimilarity options) (limit options) db)
              else performSimilaritySearchWithJavaScript ar queryEmbedding conds
                     (minSimilarity options) (limit options) db))"

section \<open>FileSystemUtils\<close>

text \<open>\<^verbatim>\<open>getFilesToReindex\<close>: \<^verbatim>\<open>!indexedMtime\<close> holds for a missing entry and for \<open>0\<close>.\<close>

definition needsReindex :: "(string \<rightharpoonup> int) \<Rightarrow> FileInfo \<Rightarrow> bool" where
  "needsReindex indexedFiles file =
     (if st_size (stat file) = 0 then False
      else (case indexedFiles (path file) of
              None \<Rightarrow> True
            | Some indexedMtime \<Rightarrow>
                if indexedMtime = 0 then True else st_mtime (stat file) > indexedMtime))"

definition getFilesToReindex :: "FileInfo list \<Rightarrow> (string \<rightharpoonup> int) \<Rightarrow> FileInfo list" where
  "getFilesToReindex files indexedFiles = filter (needsReindex indexedFiles) files"

section \<open>TextChunker\<close>

record ContentChunk =
  ck_path :: string
  ck_mtime :: int
  ck_content :: string
  ck_metadata :: VectorMetaData

text \<open>\<^verbatim>\<open>String.prototype.trim\<close> on the white space and line terminators of ASCII.\<close>

definition js_isSpace :: "char \<Rightarrow> bool" where
  "js_isSpace c \<longleftrightarrow> c \<in> {CHR 0x09, CHR 0x0A, CHR 0x0B, CHR 0x0C, CHR 0x0D, CHR 0x20}"

definition js_trim :: "string \<Rightarrow> string" where
  "js_trim s = rev (dropWhile js_isSpace (rev (dropWhile js_isSpace s)))"

text \<open>\<^verbatim>\<open>s.split('\n')\<close>: never empty, \<^verbatim>\<open>''.split('\n')\<close> is \<^verbatim>\<open>['']\<close>.\<close>

fun js_split_nl :: "string \<Rightarrow> string list" where
  "js_split_nl [] = [[]]"
| "js_split_nl (c # cs) =
     (if c = CHR 0x0A then [] # js_split_nl cs
      else (case js_split_nl cs of [] \<Rightarrow> [[c]] | l # ls \<Rightarrow> (c # l) # ls))"

text \<open>The search loop of \<^verbatim>\<open>calculateLineNumbers\<close>: \<open>i\<close> runs while
  \<^verbatim>\<open>i <= lines.length - chunkLines.length\<close> and stops at the first index where all the
  lines of the chunk match.\<close>

function findChunkLines :: "string list \<Rightarrow> string list \<Rightarrow> nat \<Rightarrow> nat option" where
  "findChunkLines lines chunkLines i =
     (if int i \<le> int (length lines) - int (length chunkLines)
      then (if list_all (\<lambda>j. lines ! (i + j) = chunkLines ! j) [0..<length chunkLines]
            then Some i
            else findChunkLines lines chunkLines (Suc i))
      else None)"
  by pat_completeness auto
termination
  by (relation "measure (\<lambda>(lines, chunkLines, i). Suc (length lines) - i)") auto

declare findChunkLines.simps [simp del]

definition calculateLineNumbers :: "string \<Rightarrow> string \<Rightarrow> int \<times> int" where
  "calculateLineNumbers originalContent chunkContent =
     (let lines = js_split_nl originalContent;
          chunkLines = js_split_nl chunkContent
      in (case findChunkLines lines chunkLines 0 of
            Some i \<Rightarrow> (int i + 1, int i + int (length chunkLines))
          | None \<Rightarrow> (1, 1)))"

text \<open>\<^verbatim>\<open>createChunks\<close>: the splitter (LangChain's recursive character splitter, a
  parameter) returns the page contents, or throws (\<open>None\<close>), and then the whole content
  becomes a single chunk.\<close>

definition createChunks :: "(string \<Rightarrow> string list option) \<Rightarrow> string \<Rightarrow> string \<Rightarrow> int \<Rightarrow> ContentChunk list" where
  "createChunks splitter content filePath mt =
     (case splitter content of
        Some documents \<Rightarrow>
          map (\<lambda>chunkContent.
                 (let (sl, el) = calculateLineNumbers content chunkContent
                  in \<lparr>ck_path = filePath, ck_mtime = mt, ck_content = chunkContent,
                      ck_metadata = \<lparr>startLine = sl, endLine = el, skipped = None, reason = None,
                                      originalSize = None\<rparr>\<rparr>)) documents
      | None \<Rightarrow>
          [\<lparr>ck_path = filePath, ck_mtime = mt, ck_content = content,
            ck_metadata = \<lparr>startLine = 1, endLine = int (length (js_split_nl content)),
                            skipped = None, reason = None, originalSize = None\<rparr>\<rparr>])"

definition createChunksForFiles ::
  "(string \<Rightarrow> string list option) \<Rightarrow> (string \<times> string \<times> int) list \<Rightarrow> ContentChunk list" where
  "createChunksForFiles splitter files =
     concat (map (\<lambda>(p, content, mt). createChunks splitter content p mt) files)"

text \<open>\<^verbatim>\<open>sanitizeContent\<close> of the chunker: NUL bytes removed, line endings normalised,
  runs of four or more newlines cut to three, trimmed.\<close>

fun replaceCRLF :: "string \<Rightarrow> string" where
  "replaceCRLF (c # d # cs) =
     (if c = CHR 0x0D \<and> d = CHR 0x0A then CHR 0x0A # replaceCRLF cs else c # replaceCRLF (d # cs))"
| "replaceCRLF cs = cs"

fun collapseNewlines :: "nat \<Rightarrow> string \<Rightarrow> string" where
  "collapseNewlines n [] = []"
| "collapseNewlines n (c # cs) =
     (if c = CHR 0x0A
      then (if n < 3 then c # collapseNewlines (Suc n) cs else collapseNewlines n cs)
      else c # collapseNewlines 0 cs)"

definition sanitizeContent :: "string \<Rightarrow> string" where
  "sanitizeContent content =
     js_trim (collapseNewlines 0
       (map (\<lambda>c. if c = CHR 0x0D then CHR 0x0A else c)
          (replaceCRLF (filter (\<lambda>c. c \<noteq> CHR 0x00) content))))"

definition validateChunk :: "nat \<Rightarrow> ContentChunk \<Rightarrow> bool" where
  "validateChunk chunkSize chunk =
     (if ck_content chunk = [] \<or> length (js_trim (ck_content chunk)) = 0 then False
      else if CHR 0x00 \<in> set (ck_content chunk) then False
      else if length (ck_content chunk) > chunkSize * 2 then False
      else True)"

definition processChunks :: "nat \<Rightarrow> ContentChunk list \<Rightarrow> ContentChunk list" where
  "processChunks chunkSize chunks =
     filter (validateChunk chunkSize)
       (map (\<lambda>chunk. chunk\<lparr>ck_content := sanitizeContent (ck_content chunk)\<rparr>) chunks)"

section \<open>Embedding client and retry\<close>

text \<open>\<^verbatim>\<open>OpenAIEmbeddingClient.getEmbedding\<close>: the response of the provider is the vector or
  an error with its HTTP status and message; every failure leaves as an
  \<^verbatim>\<open>EmbeddingError\<close>.\<close>

definition OpenAI_getEmbedding :: "bool \<Rightarrow> (nat option \<times> string) + 'n list \<Rightarrow> js_error + 'n list" where
  "OpenAI_getEmbedding hasApiKey response =
     (if \<not> hasApiKey
      then Inl (EmbeddingError ''OpenAI API key is missing. Please set it in configuration.'')
      else (case response of
              Inr vector \<Rightarrow> Inr vector
            | Inl (status, msg) \<Rightarrow>
                if status = Some 401
                then Inl (EmbeddingError ''OpenAI API key is invalid. Please update it in configuration.'')
                else if status = Some 429
                then Inl (EmbeddingError ''OpenAI API rate limit exceeded. Please try again later.'')
                else Inl (EmbeddingError (''OpenAI embedding failed: '' @ msg))))"

text \<open>\<^verbatim>\<open>backOff\<close> of the package exponential-backoff, as \<^verbatim>\<open>processEmbeddings\<close> uses it:
  the request is called again after a failure while the \<^verbatim>\<open>retry\<close> callback agrees and
  fewer than \<^verbatim>\<open>numOfAttempts\<close> calls were made; otherwise the last error is thrown. The
  first argument counts the attempts that are left, the second the calls made so far;
  the result comes with the total number of calls. Delays are not modelled.\<close>

fun backOff :: "nat \<Rightarrow> nat \<Rightarrow> (nat \<Rightarrow> js_error + 'a) \<Rightarrow> (js_error \<Rightarrow> bool) \<Rightarrow> (js_error + 'a) \<times> nat" where
  "backOff 0 attemptNumber request retry = (Inl (Error ''Something went wrong.''), attemptNumber)"
| "backOff (Suc n) attemptNumber request retry =
     (case request attemptNumber of
        Inr v \<Rightarrow> (Inr v, Suc attemptNumber)
      | Inl e \<Rightarrow>
          if \<not> retry e \<or> n = 0 then (Inl e, Suc attemptNumber)
          else backOff n (Suc attemptNumber) request retry)"

text \<open>The \<^verbatim>\<open>retry\<close> option of \<^verbatim>\<open>processEmbeddings\<close>.\<close>

definition retryCondition :: "js_error \<Rightarrow> bool" where
  "retryCondition error \<longleftrightarrow> (err_status error = Some 429 \<or> err_isEmbeddingError error)"

section \<open>VectorManager\<close>

text \<open>The places where the run reads \<^verbatim>\<open>cancellationController.isCancelled\<close>: after the
  chunks are prepared, before the batch that starts at chunk \<open>i\<close>, at the start of the
  work on chunk \<open>k\<close>, before and after the embedding call of attempt \<open>a\<close> for chunk \<open>k\<close>,
  after the batch is complete and after it is inserted.\<close>

datatype checkpoint =
    AfterPrepare
  | BeforeBatch nat
  | ChunkStart nat
  | BeforeCall nat nat
  | AfterCall nat nat
  | AfterBatch nat
  | AfterInsert nat

text \<open>What the run reads from outside: the scan of the workspace
  (\<^verbatim>\<open>fileUtils.getFilesToIndex\<close>), the existence of a path, the content of a file after
  reading, extraction and cleaning (or the error of the read), the splitter with its
  chunk size, the outcome of the embedding call for a chunk at an attempt, and the value
  of the cancel flag at a checkpoint.\<close>

record 'n environment =
  allFiles :: "FileInfo list"
  fileExists :: "string \<Rightarrow> bool"
  processedContent :: "string \<Rightarrow> js_error + string"
  splitter :: "string \<Rightarrow> string list option"
  chunkSize :: nat
  getEmbedding :: "nat \<Rightarrow> nat \<Rightarrow> js_error + 'n list"
  isCancelled :: "checkpoint \<Rightarrow> bool"

text \<open>\<^verbatim>\<open>getSchemaDimension\<close> parses \<^verbatim>\<open>vector(n)\<close> out of the column type;
  \<^verbatim>\<open>validateSchemaDimension\<close> of the manager compares it with the model (the message
  of a mismatch is given without the two numbers).\<close>

definition getSchemaDimension :: "'n database \<Rightarrow> nat option" where
  "getSchemaDimension db = (case embeddingColumn db of VectorCol n \<Rightarrow> Some n | _ \<Rightarrow> None)"

record SchemaValidation =
  valid :: bool
  schemaDimension :: "nat option"
  embeddingDimension :: nat
  message :: "string option"

definition validateSchemaDimension :: "nat \<Rightarrow> 'n database \<Rightarrow> SchemaValidation" where
  "validateSchemaDimension embDim db =
     (case getSchemaDimension db of
        None \<Rightarrow> \<lparr>valid = False, schemaDimension = None, embeddingDimension = embDim,
                 message = Some ''Database schema not initialized. Please run schema initialization.''\<rparr>
      | Some sd \<Rightarrow>
          if sd \<noteq> embDim
          then \<lparr>valid = False, schemaDimension = Some sd, embeddingDimension = embDim,
                message = Some ''Schema dimension mismatch''\<rparr>
          else \<lparr>valid = True, schemaDimension = Some sd, embeddingDimension = embDim,
                message = None\<rparr>)"

text \<open>\<^verbatim>\<open>RAGEngine.validateSchemaDimension\<close>, called by \<^verbatim>\<open>RAGEngine.initialize\<close>: it
  returns normally in every case; the second component is what it prints with
  \<^verbatim>\<open>console.warn\<close>.\<close>

definition RAGEngine_validateSchemaDimension ::
  "EmbeddingModelClient \<Rightarrow> 'n database \<Rightarrow> (js_error + unit) \<times> string list" where
  "RAGEngine_validateSchemaDimension em db =
     (let validation = validateSchemaDimension (dimension em) db
      in if \<not> valid validation
         then (Inr (), [''SCHEMA DIMENSION MISMATCH DETECTED: ''
                        @ (case message validation of Some m \<Rightarrow> m | None \<Rightarrow> ''Unknown validation error'')])
         else (Inr (), []))"

text \<open>\<^verbatim>\<open>recordSkippedFiles\<close>: one marker row for every skipped file that the map of
  \<^verbatim>\<open>allFiles\<close> knows (a later entry of the same path replaces an earlier one).\<close>

definition skippedMarker ::
  "string \<Rightarrow> EmbeddingModelClient \<Rightarrow> FileInfo \<Rightarrow> string \<times> string \<times> nat \<Rightarrow> ('n::zero) InsertEmbedding" where
  "skippedMarker wsId em fileInfo skippedFile =
     (case skippedFile of (p, rsn, sz) \<Rightarrow>
        \<lparr>workspaceId = wsId, row_path = p, row_mtime = st_mtime (stat fileInfo),
         row_content = ''[SKIPPED: No indexable content]'', row_model = model_id em,
         row_dimension = dimension em, embedding = replicate (dimension em) 0,
         metadata = \<lparr>startLine = 0, endLine = 0, skipped = Some True, reason = Some rsn,
                     originalSize = Some sz\<rparr>\<rparr>)"

definition recordSkippedFiles ::
  "(string \<times> string \<times> nat) list \<Rightarrow> FileInfo list \<Rightarrow> string \<Rightarrow> EmbeddingModelClient \<Rightarrow> ('n::zero) database \<Rightarrow> 'n database" where
  "recordSkippedFiles skippedFiles files wsId em db =
     (if skippedFiles = [] then db
      else
        (let fileMap = map_of (rev (map (\<lambda>f. (path f, f)) files));
             dummyEmbeddings =
               concat (map (\<lambda>skippedFile.
                              (case fileMap (fst skippedFile) of
                                 None \<Rightarrow> []
                               | Some fileInfo \<Rightarrow> [skippedMarker wsId em fileInfo skippedFile]))
                           skippedFiles)
         in if dummyEmbeddings \<noteq> [] then insertVectors dummyEmbeddings db else db))"

text \<open>\<^verbatim>\<open>VectorManager.getFilesToIndex\<close>: the files of the scan that are new or modified.\<close>

definition vm_getFilesToIndex :: "'n environment \<Rightarrow> string \<Rightarrow> EmbeddingModelClient \<Rightarrow> 'n database \<Rightarrow> FileInfo list" where
  "vm_getFilesToIndex env wsId em db =
     (let indexedFilePaths = getIndexedFilePaths wsId em db;
          indexedMtimes = getFileModificationTimes wsId indexedFilePaths em db
      in getFilesToReindex (allFiles env) indexedMtimes)"

text \<open>\<^verbatim>\<open>VectorManager.deleteVectorsForDeletedFiles\<close>: the indexed paths that still exist
  and still match the patterns are kept.\<close>

definition vm_deleteVectorsForDeletedFiles ::
  "'n environment \<Rightarrow> string \<Rightarrow> EmbeddingModelClient \<Rightarrow> 'n database \<Rightarrow> 'n database" where
  "vm_deleteVectorsForDeletedFiles env wsId em db =
     (let indexedFilePaths = getIndexedFilePaths wsId em db;
          existingFilePaths = filter (fileExists env) indexedFilePaths;
          currentFilePaths = set (map path (allFiles env));
          validFilePaths = filter (\<lambda>p. p \<in> currentFilePaths) existingFilePaths
      in repo_deleteVectorsForDeletedFiles wsId validFilePaths em db)"

text \<open>\<^verbatim>\<open>prepareContentChunks\<close>: the loop over the files collects, in order, the failed
  files (path, error, size), the skipped files (path, reason, size) and the contents
  (path, content, mtime); the chunks are made and validated from the contents.\<close>

type_synonym prepared =
  "(string \<times> string \<times> nat) list \<times> (string \<times> string \<times> nat) list \<times> (string \<times> string \<times> int) list"

definition readStep :: "'n environment \<Rightarrow> prepared \<Rightarrow> FileInfo \<Rightarrow> prepared" where
  "readStep env acc file =
     (case acc of (failedFiles, skippedFiles, fileContents) \<Rightarrow>
        (case processedContent env (path file) of
           Inl error \<Rightarrow>
             (failedFiles @ [(path file, err_message error, st_size (stat file))], skippedFiles, fileContents)
         | Inr content \<Rightarrow>
             if length (js_trim content) = 0
             then (failedFiles,
                   skippedFiles @ [(path file,
                                    if st_size (stat file) = 0 then ''File is empty (size: 0 bytes)''
                                    else ''File contains no indexable content after processing'',
                                    st_size (stat file))],
                   fileContents)
             else (failedFiles, skippedFiles,
                   fileContents @ [(path file, content, st_mtime (stat file))])))"

definition prepareContentChunks ::
  "'n environment \<Rightarrow> FileInfo list
     \<Rightarrow> ContentChunk list \<times> (string \<times> string \<times> nat) list \<times> (string \<times> string \<times> nat) list" where
  "prepareContentChunks env files =
     (case foldl (readStep env) ([], [], []) files of
        (failedFiles, skippedFiles, fileContents) \<Rightarrow>
          (processChunks (chunkSize env) (createChunksForFiles (splitter env) fileContents),
           failedFiles, skippedFiles))"

text \<open>The request given to \<^verbatim>\<open>backOff\<close> for chunk \<open>k\<close>: it throws \<^verbatim>\<open>Error('Cancelled')\<close>
  when the flag is set before or after the embedding call, and builds the row
  otherwise.\<close>

definition embedRequest ::
  "'n environment \<Rightarrow> string \<Rightarrow> EmbeddingModelClient \<Rightarrow> nat \<Rightarrow> ContentChunk \<Rightarrow> nat \<Rightarrow> js_error + 'n InsertEmbedding" where
  "embedRequest env wsId em k chunk attempt =
     (if isCancelled env (BeforeCall k attempt) then Inl (Error ''Cancelled'')
      else (case getEmbedding env k attempt of
              Inl e \<Rightarrow> Inl e
            | Inr vector \<Rightarrow>
                if isCancelled env (AfterCall k attempt) then Inl (Error ''Cancelled'')
                else Inr \<lparr>workspaceId = wsId, row_path = ck_path chunk, row_mtime = ck_mtime chunk,
                          row_content = ck_content chunk, row_model = model_id em,
                          row_dimension = dimension em, embedding = vector,
                          metadata = ck_metadata chunk\<rparr>))"

text \<open>The work on one chunk of a batch: the row or \<^verbatim>\<open>null\<close>, together with what it
  pushes on \<^verbatim>\<open>failedChunks\<close>.\<close>

definition embedChunk ::
  "'n environment \<Rightarrow> string \<Rightarrow> EmbeddingModelClient \<Rightarrow> nat \<Rightarrow> ContentChunk
     \<Rightarrow> 'n InsertEmbedding option \<times> (string \<times> string) list" where
  "embedChunk env wsId em k chunk =
     (if isCancelled env (ChunkStart k) then (None, [])
      else (case fst (backOff 5 0 (embedRequest env wsId em k chunk) retryCondition) of
              Inr row \<Rightarrow> (Some row, [])
            | Inl error \<Rightarrow>
                if err_message error = ''Cancelled'' then (None, [])
                else (None, [(ck_path chunk, err_message error)])))"

text \<open>\<^verbatim>\<open>Promise.all(batch.map(...))\<close> for the batch that starts at chunk \<open>i\<close>: the calls
  run concurrently, and each reads the cancel flag through the environment at its own
  checkpoints. \<^verbatim>\<open>filter(emb => emb !== null)\<close> keeps the rows.\<close>

definition embedBatch ::
  "'n environment \<Rightarrow> string \<Rightarrow> EmbeddingModelClient \<Rightarrow> nat \<Rightarrow> ContentChunk list
     \<Rightarrow> ('n InsertEmbedding option \<times> (string \<times> string) list) list" where
  "embedBatch env wsId em i batch =
     map (\<lambda>(j, chunk). embedChunk env wsId em (i + j) chunk) (zip [0..<length batch] batch)"

definition filterNotNull :: "('n InsertEmbedding option \<times> (string \<times> string) list) list \<Rightarrow> 'n InsertEmbedding list" where
  "filterNotNull embeddingBatch =
     concat (map (\<lambda>r. case fst r of None \<Rightarrow> [] | Some row \<Rightarrow> [row]) embeddingBatch)"

text \<open>The loop of \<^verbatim>\<open>processEmbeddings\<close> from chunk \<open>i\<close> on, in batches of 10. The result
  is \<^verbatim>\<open>wasCancelled\<close>, the failed chunks so far and the database.\<close>

function processBatches ::
  "'n environment \<Rightarrow> string \<Rightarrow> EmbeddingModelClient \<Rightarrow> ContentChunk list \<Rightarrow> nat
     \<Rightarrow> (string \<times> string) list \<Rightarrow> 'n database \<Rightarrow> (bool \<times> (string \<times> string) list) \<times> 'n database" where
  "processBatches env wsId em contentChunks i failedChunks db =
     (if i < length contentChunks then
        (if isCancelled env (BeforeBatch i) then ((True, failedChunks), db)
         else
           (let batch = take 10 (drop i contentChunks);
                embeddingBatch = embedBatch env wsId em i batch;
                failedChunks' = failedChunks @ concat (map snd embeddingBatch)
            in if isCancelled env (AfterBatch i) then ((True, failedChunks'), db)
               else
                 (let validEmbeddings = filterNotNull embeddingBatch;
                      db' = (if validEmbeddings \<noteq> [] then insertVectors validEmbeddings db else db)
                  in if isCancelled env (AfterInsert i) then ((True, failedChunks'), db')
                     else processBatches env wsId em contentChunks (i + 10) failedChunks' db')))
      else ((False, failedChunks), db))"
  by pat_completeness auto
termination
  by (relation "measure (\<lambda>(env, wsId, em, contentChunks, i, failedChunks, db). length contentChunks - i)")
     auto

declare processBatches.simps [simp del]

definition processEmbeddings ::
  "'n environment \<Rightarrow> string \<Rightarrow> EmbeddingModelClient \<Rightarrow> ContentChunk list \<Rightarrow> 'n database
     \<Rightarrow> (js_error + bool) \<times> 'n database" where
  "processEmbeddings env wsId em contentChunks db =
     (case processBatches env wsId em contentChunks 0 [] db of
        ((wasCancelled, failedChunks), db') \<Rightarrow>
          if wasCancelled then (Inr True, db')
          else if failedChunks \<noteq> [] then (Inl (IndexingError ''Failed to embed chunks''), db')
          else (Inr False, db'))"

text \<open>The first phase of \<^verbatim>\<open>updateVaultIndexInternal\<close>: the files to index, and the
  database after the rows they replace are deleted.\<close>

definition selectFilesToIndex ::
  "'n environment \<Rightarrow> string \<Rightarrow> EmbeddingModelClient \<Rightarrow> bool \<Rightarrow> 'n database \<Rightarrow> FileInfo list \<times> 'n database" where
  "selectFilesToIndex env wsId em reindexAll db =
     (if reindexAll then (allFiles env, clearAllVectors wsId em db)
      else
        (let db1 = vm_deleteVectorsForDeletedFiles env wsId em db;
             filesToIndex = vm_getFilesToIndex env wsId em db1
         in if filesToIndex \<noteq> []
            then (filesToIndex, deleteVectorsForMultipleFiles wsId (map path filesToIndex) em db1)
            else (filesToIndex, db1)))"

text \<open>\<^verbatim>\<open>updateVaultIndexInternal\<close>. The function returns nothing; the model returns
  whether the run reported a cancellation (\<open>Inr True\<close>), or the error it throws. Progress
  callbacks and the progress log are left out: no operation reads them.\<close>

definition updateVaultIndexInternal ::
  "('n::zero) environment \<Rightarrow> string \<Rightarrow> EmbeddingModelClient \<Rightarrow> bool \<Rightarrow> 'n database \<Rightarrow> (js_error + bool) \<times> 'n database" where
  "updateVaultIndexInternal env wsId em reindexAll db =
     (case selectFilesToIndex env wsId em reindexAll db of
        (filesToIndex, db1) \<Rightarrow>
          if filesToIndex = [] then (Inr False, db1)
          else
            (case prepareContentChunks env filesToIndex of
               (contentChunks, failedFiles, skippedFiles) \<Rightarrow>
                 if isCancelled env AfterPrepare then (Inr True, db1)
                 else
                   (let db2 = (if skippedFiles \<noteq> []
                               then recordSkippedFiles skippedFiles filesToIndex wsId em db1
                               else db1)
                    in if contentChunks = []
                       then (if failedFiles = [] \<and> skippedFiles \<noteq> [] then (Inr False, db2)
                             else (Inl (IndexingError ''All files failed to process. No content to index.''), db2))
                       else processEmbeddings env wsId em contentChunks db2)))"

definition updateVaultIndex ::
  "('n::zero) environment \<Rightarrow> string \<Rightarrow> EmbeddingModelClient \<Rightarrow> bool \<Rightarrow> 'n database \<Rightarrow> (js_error + bool) \<times> 'n database" where
  "updateVaultIndex env wsId em reindexAll db =
     withAdvisoryLock wsId (updateVaultIndexInternal env wsId em reindexAll) db"

section \<open>Index Manager\<close>

text \<open>The rebuild handler of \<^verbatim>\<open>index-manager.ts\<close> wraps the indexing run in
  \<^verbatim>\<open>indexMutex.runExclusive\<close> and answers with the "already in progress" text only when
  that promise is rejected. What the handler returns, and the status that the progress
  server derives from \<^verbatim>\<open>isError\<close>:\<close>

datatype response = Completed | CancelledResponse | Failed string | AlreadyInProgress

fun isError :: "response \<Rightarrow> bool" where
  "isError Completed = False"
| "isError CancelledResponse = False"
| "isError (Failed msg) = True"
| "isError AlreadyInProgress = True"

definition httpStatus :: "response \<Rightarrow> nat" where
  "httpStatus r = (if isError r then 409 else 200)"

text \<open>The callback given to \<^verbatim>\<open>runExclusive\<close>: it catches every error of the run.\<close>

definition rebuildCallback :: "js_error + bool \<Rightarrow> response" where
  "rebuildCallback outcome =
     (case outcome of
        Inl e \<Rightarrow> Failed (err_message e)
      | Inr wasCancelled \<Rightarrow> if wasCancelled then CancelledResponse else Completed)"

text \<open>The handler around it: \<open>Inl\<close> is a rejection of \<^verbatim>\<open>runExclusive\<close>.\<close>

definition rebuildIndexHandler :: "js_error + response \<Rightarrow> response" where
  "rebuildIndexHandler settled = (case settled of Inl e \<Rightarrow> AlreadyInProgress | Inr r \<Rightarrow> r)"

text \<open>The mutex of the package async-mutex, created with \<^verbatim>\<open>new Mutex()\<close> and never
  cancelled: \<^verbatim>\<open>runExclusive\<close> runs the callback at once when the mutex is free and
  otherwise waits in a first-in-first-out queue until the holder is done; it rejects
  only through the callback. The state of the process: the request whose callback holds
  the mutex, the requests that wait, and the answers given so far.\<close>

record manager =
  running :: "nat option"
  waiting :: "nat list"
  responses :: "(nat \<times> response) list"

datatype event = RebuildRequest nat | IndexingDone "js_error + bool"

fun step :: "manager \<Rightarrow> event \<Rightarrow> manager" where
  "step m (RebuildRequest r) =
     (case running m of
        None \<Rightarrow> m\<lparr>running := Some r\<rparr>
      | Some holder \<Rightarrow> m\<lparr>waiting := waiting m @ [r]\<rparr>)"
| "step m (IndexingDone outcome) =
     (case running m of
        None \<Rightarrow> m
      | Some holder \<Rightarrow>
          m\<lparr>responses := responses m @ [(holder, rebuildIndexHandler (Inr (rebuildCallback outcome)))],
            running := (case waiting m of [] \<Rightarrow> None | r # rs \<Rightarrow> Some r),
            waiting := tl (waiting m)\<rparr>)"

definition idle :: manager where
  "idle = \<lparr>running = None, waiting = [], responses = []\<rparr>"

section \<open>Example data\<close>

text \<open>A model of dimension 2, rows of two workspaces and a skipped marker row, used
  where the properties below are evaluated on concrete inputs. The numbers of the
  examples are real numbers.\<close>

definition em0 :: EmbeddingModelClient where
  "em0 = \<lparr>model_id = ''m'', dimension = 2\<rparr>"

definition plainMeta :: VectorMetaData where
  "plainMeta = \<lparr>startLine = 1, endLine = 1, skipped = None, reason = None, originalSize = None\<rparr>"

definition rowA :: "real InsertEmbedding" where
  "rowA = \<lparr>workspaceId = ''A'', row_path = ''a.md'', row_mtime = 5, row_content = ''alpha'',
            row_model = ''m'', row_dimension = 2, embedding = [1, 0], metadata = plainMeta\<rparr>"

definition rowB :: "real InsertEmbedding" where
  "rowB = rowA\<lparr>workspaceId := ''B'', row_path := ''b.md''\<rparr>"

definition rowS :: "real InsertEmbedding" where
  "rowS = skippedMarker ''A'' em0 \<lparr>path = ''s.md'', stat = \<lparr>st_mtime = 7, st_size = 0\<rparr>\<rparr>
            (''s.md'', ''File is empty (size: 0 bytes)'', 0)"

definition db0 :: "real database" where
  "db0 = \<lparr>rows = [rowA, rowB, rowS], embeddingColumn = VectorCol 2, advisoryLocks = []\<rparr>"

definition opts0 :: "real SearchOptions" where
  "opts0 = \<lparr>minSimilarity = 0, limit = 10, scopeFiles = None\<rparr>"

text \<open>The arithmetic of the real numbers, which agrees with that of the doubles on the
  numbers of the examples, and a database whose distance operator finds every vector at
  distance \<open>0\<close> of the query.\<close>

definition realArith :: "real arith" where
  "realArith = \<lparr>num_add = (+), num_sub = (-), num_mul = (*), num_div = (/), num_sqrt = sqrt,
     num_eq = (=), num_lt = (<)\<rparr>"

definition pg0 :: "real pgvector" where
  "pg0 = \<lparr>cosineDistance = (\<lambda>u v. 0), orderBefore = (<)\<rparr>"

text \<open>A model of dimension 1 and a table with a \<^verbatim>\<open>jsonb\<close> column that holds a row of each
  workspace for it.\<close>

definition em1 :: EmbeddingModelClient where
  "em1 = \<lparr>model_id = ''m'', dimension = 1\<rparr>"

definition jsonbDb :: "real database" where
  "jsonbDb = \<lparr>rows = [rowA\<lparr>row_dimension := 1, embedding := [1]\<rparr>,
                       rowB\<lparr>row_dimension := 1, embedding := [1]\<rparr>],
               embeddingColumn = JsonbCol, advisoryLocks = []\<rparr>"

text \<open>An environment where every file reads as \<^verbatim>\<open>text\<close>, the splitter returns the
  content as one chunk, every embedding succeeds and nobody cancels.\<close>

definition env0 :: "FileInfo list \<Rightarrow> real environment" where
  "env0 files = \<lparr>allFiles = files, fileExists = (\<lambda>p. True), processedContent = (\<lambda>p. Inr ''text''),
     splitter = (\<lambda>content. Some [content]), chunkSize = 1000, getEmbedding = (\<lambda>k a. Inr [1, 0]),
     isCancelled = (\<lambda>cp. False)\<rparr>"

definition chunk0 :: ContentChunk where
  "chunk0 = \<lparr>ck_path = ''a.md'', ck_mtime = 5, ck_content = ''alpha'', ck_metadata = plainMeta\<rparr>"

text \<open>A file whose modification time is the epoch, indexed with that time.\<close>

definition epochFile :: FileInfo where
  "epochFile = \<lparr>path = ''a.md'', stat = \<lparr>st_mtime = 0, st_size = 5\<rparr>\<rparr>"

definition epochDb :: "real database" where
  "epochDb = \<lparr>rows = [rowA\<lparr>row_mtime := 0\<rparr>], embeddingColumn = VectorCol 2, advisoryLocks = []\<rparr>"

text \<open>A provider that answers every call with HTTP 401.\<close>

definition unauthorizedEnv :: "real environment" where
  "unauthorizedEnv =
     (env0 [])\<lparr>getEmbedding := (\<lambda>k a. OpenAI_getEmbedding True (Inl (Some 401, ''Unauthorized'')))\<rparr>"






text \<open>A scan with a file of text and an empty file, which reads as blank; a model
  whose dimension differs from the declared dimension of \<open>db0\<close>.\<close>

definition fileA :: FileInfo where
  "fileA = \<lparr>path = ''a.md'', stat = \<lparr>st_mtime = 5, st_size = 4\<rparr>\<rparr>"

definition fileS :: FileInfo where
  "fileS = \<lparr>path = ''s.md'', stat = \<lparr>st_mtime = 7, st_size = 0\<rparr>\<rparr>"

definition mixedEnv :: "real environment" where
  "mixedEnv = (env0 [fileA, fileS])\<lparr>processedContent := (\<lambda>p. if p = ''s.md'' then Inr [] else Inr ''text'')\<rparr>"

definition cancelledMixedEnv :: "real environment" where
  "cancelledMixedEnv = mixedEnv\<lparr>isCancelled := (\<lambda>cp. True)\<rparr>"

definition rowT :: "real InsertEmbedding" where
  "rowT = rowA\<lparr>row_content := ''text''\<rparr>"

definition em3 :: EmbeddingModelClient where
  "em3 = \<lparr>model_id = ''m'', dimension = 3\<rparr>"

section \<open>Properties\<close>

lemma toInt32_range: "- (2 ^ 31) \<le> toInt32 x \<and> toInt32 x < 2 ^ 31"
  unfolding toInt32_def by simp

lemma hashLoop_range:
  "- (2 ^ 31) \<le> h \<and> h < 2 ^ 31 \<Longrightarrow> - (2 ^ 31) \<le> hashLoop h s \<and> hashLoop h s < 2 ^ 31"
proof (induction s arbitrary: h)
  case Nil
  then show ?case by simp
next
  case (Cons c cs)
  show ?case
    unfolding hashLoop.simps by (rule Cons.IH) (rule toInt32_range)
qed

lemma toInt32_mod: "toInt32 x mod 2 ^ 32 = x mod 2 ^ 32"
proof -
  have "toInt32 x mod 2 ^ 32 = ((x + 2 ^ 31) mod 2 ^ 32 - 2 ^ 31) mod 2 ^ 32"
    by (simp add: toInt32_def)
  also have "\<dots> = (x + 2 ^ 31 - 2 ^ 31) mod 2 ^ 32"
    by (rule mod_diff_left_eq)
  finally show ?thesis by simp
qed

lemma toInt32_eqI: "x mod 2 ^ 32 = y mod 2 ^ 32 \<Longrightarrow> toInt32 x = toInt32 y"
proof -
  assume "x mod 2 ^ 32 = y mod 2 ^ 32"
  then have "(x + 2 ^ 31) mod 2 ^ 32 = (y + 2 ^ 31) mod 2 ^ 32"
    by (rule mod_add_cong) simp
  then show ?thesis by (simp add: toInt32_def)
qed

lemma hashStep:
  "toInt32 ((toInt32 (toInt32 h * 2 ^ 5) - toInt32 h) + c) = toInt32 (h * 31 + c)"
proof (rule toInt32_eqI)
  have a: "toInt32 (toInt32 h * 2 ^ 5) mod 2 ^ 32 = (h * 2 ^ 5) mod 2 ^ 32"
    unfolding toInt32_mod by (rule mod_mult_cong) (rule toInt32_mod, rule refl)
  have "(toInt32 (toInt32 h * 2 ^ 5) - toInt32 h) mod 2 ^ 32 = (h * 2 ^ 5 - h) mod 2 ^ 32"
    using a by (rule mod_diff_cong) (rule toInt32_mod)
  then have "(toInt32 (toInt32 h * 2 ^ 5) - toInt32 h + c) mod 2 ^ 32 = (h * 2 ^ 5 - h + c) mod 2 ^ 32"
    by (rule mod_add_cong) simp
  then show "(toInt32 (toInt32 h * 2 ^ 5) - toInt32 h + c) mod 2 ^ 32 = (h * 31 + c) mod 2 ^ 32"
    by (simp add: algebra_simps)
qed

lemma hashLoop_polynomial:
  "hashLoop (toInt32 h) s = toInt32 (foldl (\<lambda>h c. h * 31 + of_char c) h s)"
proof (induction s arbitrary: h)
  case Nil
  then show ?case by simp
next
  case (Cons c cs)
  show ?case
    by (simp only: hashLoop.simps hashStep Cons.IH foldl_Cons)
qed

lemma cosineLoop_folds:
  "length as = length bs \<Longrightarrow>
   cosineLoop ar as bs (d, ma, mb) =
     (foldl (\<lambda>s (x, y). num_add ar s (num_mul ar x y)) d (zip as bs),
      foldl (\<lambda>s (x, y). num_add ar s (num_mul ar x y)) ma (zip as as),
      foldl (\<lambda>s (x, y). num_add ar s (num_mul ar x y)) mb (zip bs bs))"
proof (induction as arbitrary: bs d ma mb)
  case Nil
  then show ?case by simp
next
  case (Cons a as)
  then obtain b bs' where bs: "bs = b # bs'" and len: "length as = length bs'"
    by (cases bs) auto
  show ?case
    unfolding bs by (simp add: Cons.IH [OF len])
qed

subsection \<open>Advisory lock\<close>

lemma processBatches_locks:
  "advisoryLocks (snd (processBatches env wsId em cs i fl db)) = advisoryLocks db"
proof (induction env wsId em cs i fl db rule: processBatches.induct)
  case (1 env wsId em cs i fl db)
  define valid where "valid = filterNotNull (embedBatch env wsId em i (take 10 (drop i cs)))"
  define fl' where "fl' = fl @ concat (map snd (embedBatch env wsId em i (take 10 (drop i cs))))"
  define db' where "db' = (if valid \<noteq> [] then insertVectors valid db else db)"
  have db': "advisoryLocks db' = advisoryLocks db"
    by (simp add: db'_def insertVectors_def)
  show ?case
  proof (cases "i < length cs \<and> \<not> isCancelled env (BeforeBatch i) \<and> \<not> isCancelled env (AfterBatch i)
                \<and> \<not> isCancelled env (AfterInsert i)")
    case True
    then have IH: "advisoryLocks (snd (processBatches env wsId em cs (i + 10) fl' db')) = advisoryLocks db'"
      unfolding fl'_def db'_def valid_def by (intro "1.IH") auto
    from True have "processBatches env wsId em cs i fl db = processBatches env wsId em cs (i + 10) fl' db'"
      by (subst processBatches.simps) (simp add: Let_def db'_def fl'_def valid_def)
    with IH db' show ?thesis by simp
  next
    case False
    then show ?thesis
      by (subst processBatches.simps) (auto simp: Let_def insertVectors_def)
  qed
qed

lemma updateVaultIndexInternal_locks:
  "advisoryLocks (snd (updateVaultIndexInternal env wsId em ra db)) = advisoryLocks db"
proof -
  have sel: "advisoryLocks (snd (selectFilesToIndex env wsId em ra db)) = advisoryLocks db"
    by (simp add: selectFilesToIndex_def Let_def clearAllVectors_def deleteVectorsForMultipleFiles_def
        vm_deleteVectorsForDeletedFiles_def repo_deleteVectorsForDeletedFiles_def)
  have rec: "advisoryLocks (recordSkippedFiles sk files wsId em d) = advisoryLocks d" for sk files d
    by (simp add: recordSkippedFiles_def insertVectors_def Let_def)
  have emb: "advisoryLocks (snd (processEmbeddings env wsId em cs d)) = advisoryLocks d" for cs d
    using processBatches_locks [of env wsId em cs 0 "[]" d]
    by (auto simp: processEmbeddings_def split: prod.splits)
  show ?thesis
    using sel
    by (auto simp: updateVaultIndexInternal_def Let_def rec emb split: prod.splits)
qed

text \<open>The lock key is a function of the workspace id alone: the absolute value of the
  polynomial hash of its characters to the base 31, wrapped to a signed 32-bit integer.
  It lies between \<open>0\<close> and \<open>2 ^ 31\<close>.\<close>

lemma workspaceIdToLockKey_hash:
  "workspaceIdToLockKey wsId = \<bar>toInt32 (foldl (\<lambda>h c. h * 31 + of_char c) 0 wsId)\<bar>
   \<and> 0 \<le> workspaceIdToLockKey wsId \<and> workspaceIdToLockKey wsId \<le> 2 ^ 31"
proof -
  have "toInt32 0 = 0"
    by (simp add: toInt32_def)
  with hashLoop_polynomial [of 0 wsId]
  have "hashLoop 0 wsId = toInt32 (foldl (\<lambda>h c. h * 31 + of_char c) 0 wsId)"
    by simp
  moreover have "- (2 ^ 31) \<le> hashLoop 0 wsId \<and> hashLoop 0 wsId < 2 ^ 31"
    by (rule hashLoop_range) simp
  ultimately show ?thesis
    unfolding workspaceIdToLockKey_def by linarith
qed

text \<open>\<^verbatim>\<open>withAdvisoryLock\<close> runs \<open>fn\<close> in a state where the key of the workspace is held,
  passes on the outcome of \<open>fn\<close> (a value or a thrown error alike) and the rows that \<open>fn\<close>
  leaves, and gives the key back afterwards: when \<open>fn\<close> itself leaves the locks as it
  found them, the locks after the wrapper are those before it. So it is for the index
  update, whatever its outcome.\<close>

lemma withAdvisoryLock_releases:
  "advisoryLocks (acquireAdvisoryLock wsId db) = workspaceIdToLockKey wsId # advisoryLocks db
   \<and> (\<forall>res db'. fn (acquireAdvisoryLock wsId db) = (res, db')
         \<longrightarrow> fst (withAdvisoryLock wsId fn db) = res
           \<and> rows (snd (withAdvisoryLock wsId fn db)) = rows db'
           \<and> (advisoryLocks db' = advisoryLocks (acquireAdvisoryLock wsId db)
                \<longrightarrow> advisoryLocks (snd (withAdvisoryLock wsId fn db)) = advisoryLocks db))
   \<and> advisoryLocks (snd (updateVaultIndex env wsId em reindexAll db)) = advisoryLocks db"
proof -
  have wrap: "\<forall>res db'. fn (acquireAdvisoryLock wsId db) = (res, db')
         \<longrightarrow> fst (withAdvisoryLock wsId fn db) = res
           \<and> rows (snd (withAdvisoryLock wsId fn db)) = rows db'
           \<and> (advisoryLocks db' = advisoryLocks (acquireAdvisoryLock wsId db)
                \<longrightarrow> advisoryLocks (snd (withAdvisoryLock wsId fn db)) = advisoryLocks db)"
    by (auto simp: withAdvisoryLock_def acquireAdvisoryLock_def releaseAdvisoryLock_def Let_def)
  have "advisoryLocks (snd (updateVaultIndex env wsId em reindexAll db)) = advisoryLocks db"
    using updateVaultIndexInternal_locks [of env wsId em reindexAll "acquireAdvisoryLock wsId db"]
    by (auto simp: updateVaultIndex_def withAdvisoryLock_def releaseAdvisoryLock_def
        acquireAdvisoryLock_def split: prod.splits)
  with wrap show ?thesis by (simp add: acquireAdvisoryLock_def)
qed


subsection \<open>Cosine similarity\<close>

text \<open>
  C10. On vectors of the same length \<^verbatim>\<open>calculateCosineSimilarity\<close> returns a number and
  does not throw: \<open>0\<close> when the magnitude of one of them is \<open>0\<close>, and then whatever the
  division is, since it is not used; otherwise the dot product divided by the product
  of the two magnitudes. On vectors of different lengths it throws. This holds for
  every arithmetic, with the sums, the products, the square roots, the division and the
  test for \<open>0\<close> as that arithmetic computes them.
\<close>

theorem calculateCosineSimilarity_total:
  "(length a = length b \<longrightarrow>
      calculateCosineSimilarity ar a b =
        Inr (if num_eq ar (magnitude ar a) 0 \<or> num_eq ar (magnitude ar b) 0 then 0
             else num_div ar (dot ar a b) (num_mul ar (magnitude ar a) (magnitude ar b)))
      \<and> (num_eq ar (magnitude ar a) 0 \<or> num_eq ar (magnitude ar b) 0 \<longrightarrow>
            calculateCosineSimilarity (ar\<lparr>num_div := dv\<rparr>) a b = Inr 0))
   \<and> (length a \<noteq> length b \<longrightarrow>
        calculateCosineSimilarity ar a b = Inl (Error ''Vector dimensions must match''))"
proof (intro conjI impI)
  assume len: "length a = length b"
  show "calculateCosineSimilarity ar a b =
        Inr (if num_eq ar (magnitude ar a) 0 \<or> num_eq ar (magnitude ar b) 0 then 0
             else num_div ar (dot ar a b) (num_mul ar (magnitude ar a) (magnitude ar b)))"
    using len by (simp add: calculateCosineSimilarity_def cosineLoop_folds dot_def magnitude_def)
  assume "num_eq ar (magnitude ar a) 0 \<or> num_eq ar (magnitude ar b) 0"
  then show "calculateCosineSimilarity (ar\<lparr>num_div := dv\<rparr>) a b = Inr 0"
    using len by (auto simp: calculateCosineSimilarity_def cosineLoop_folds dot_def magnitude_def)
next
  assume "length a \<noteq> length b"
  then show "calculateCosineSimilarity ar a b = Inl (Error ''Vector dimensions must match'')"
    by (simp add: calculateCosineSimilarity_def)
qed

theorem calculateCosineSimilarity_total_witness:
  "length [2, 0 :: real] = length [1, 0 :: real]
   \<and> calculateCosineSimilarity realArith [2, 0] [1, 0] = Inr 1
   \<and> num_eq realArith (magnitude realArith [0, 0]) 0
   \<and> calculateCosineSimilarity (realArith\<lparr>num_div := (\<lambda>x y. 7)\<rparr>) [0, 0] [1, 0] = Inr 0
   \<and> length [1 :: real] \<noteq> length ([] :: real list)
   \<and> calculateCosineSimilarity realArith [1] [] = Inl (Error ''Vector dimensions must match'')"
  using calculateCosineSimilarity_total [where ar = realArith and a = "[2, 0]" and b = "[1, 0]"]
        calculateCosineSimilarity_total [where ar = realArith and a = "[0, 0]" and b = "[1, 0]"
          and dv = "\<lambda>x y. 7"]
        calculateCosineSimilarity_total [where ar = realArith and a = "[1]" and b = "[]"]
  by (simp add: realArith_def dot_def magnitude_def)

subsection \<open>Similarity search\<close>

lemma set_insertSorted: "set (insertSorted before x xs) = insert x (set xs)"
  by (induction xs) auto

lemma set_stableSort: "set (stableSort before xs) = set xs"
proof -
  have "set (foldl (\<lambda>acc x. insertSorted before x acc) acc xs) = set acc \<union> set xs" for acc
    by (induction xs arbitrary: acc) (auto simp: set_insertSorted)
  then show ?thesis by (simp add: stableSort_def)
qed

lemma decodeRows_subset:
  "decodeRows c rs = Inr ds \<Longrightarrow> (r, v) \<in> set ds \<Longrightarrow> r \<in> set rs"
  by (induction rs arbitrary: ds) (auto split: sum.splits)

lemma similarities_subset:
  "similarities ar q ms ds = Inr res \<Longrightarrow> (r, s) \<in> set res \<Longrightarrow> r \<in> fst ` set ds"
  by (induction ar q ms ds arbitrary: res rule: similarities.induct)
     (force split: sum.splits if_splits)+

lemma pgvector_results:
  "(r, s) \<in> set (performSimilaritySearchWithPgvector ar pg q conds ms k db) \<Longrightarrow> r \<in> set (rows db) \<and> conds r"
  unfolding performSimilaritySearchWithPgvector_def Let_def
  by (auto dest!: in_set_takeD simp: set_stableSort)

lemma javascript_results:
  assumes "performSimilaritySearchWithJavaScript ar q conds ms k db = Inr res" and "(r, s) \<in> set res"
  shows "r \<in> set (rows db) \<and> conds r"
proof -
  from assms(1) obtain ds sims where ds: "decodeRows (embeddingColumn db) (filter conds (rows db)) = Inr ds"
    and sims: "similarities ar q ms ds = Inr sims"
    and res: "res = take k (stableSort (\<lambda>a b. num_lt ar (num_sub ar (snd b) (snd a)) 0) sims)"
    by (auto simp: performSimilaritySearchWithJavaScript_def split: sum.splits)
  from assms(2) res have "(r, s) \<in> set sims"
    by (auto dest!: in_set_takeD simp: set_stableSort)
  with sims have "r \<in> fst ` set ds"
    by (rule similarities_subset)
  then obtain v where "(r, v) \<in> set ds"
    by auto
  with ds have "r \<in> set (filter conds (rows db))"
    by (rule decodeRows_subset)
  then show ?thesis by simp
qed

lemma search_results:
  "performSimilaritySearch ar pg wsId q em options db = Inr res \<Longrightarrow> (r, s) \<in> set res
     \<Longrightarrow> r \<in> set (rows db) \<and> whereConditions wsId em (scopeFiles options) r"
  unfolding performSimilaritySearch_def Let_def
  by (auto split: sum.splits if_splits dest: pgvector_results javascript_results)

lemma search_db0_vector:
  "performSimilaritySearch realArith pg0 ''A'' [1, 0] em0 opts0 db0 = Inr [(rowA, 1)]"
  by (simp add: performSimilaritySearch_def detectEmbeddingColumnType_def db0_def opts0_def
      performSimilaritySearchWithPgvector_def whereConditions_def rowA_def rowB_def rowS_def
      skippedMarker_def em0_def plainMeta_def stableSort_def realArith_def pg0_def)

lemma search_db0_javascript:
  "performSimilaritySearchWithJavaScript realArith [1, 0] (whereConditions ''A'' em0 None) 0 10 db0
     = Inr [(rowA, 1)]"
  by (simp add: db0_def performSimilaritySearchWithJavaScript_def whereConditions_def rowA_def
      rowB_def rowS_def skippedMarker_def em0_def plainMeta_def calculateCosineSimilarity_def
      selectEmbedding_def fromDriver_def stableSort_def realArith_def)

lemma search_db0_jsonb:
  "performSimilaritySearch realArith pg0 ''A'' [1, 0] em0 opts0 (db0\<lparr>embeddingColumn := JsonbCol\<rparr>)
     = Inl (SyntaxError ''JSON.parse: unexpected input'')"
  by (simp add: performSimilaritySearch_def detectEmbeddingColumnType_def db0_def opts0_def
      performSimilaritySearchWithJavaScript_def whereConditions_def rowA_def rowB_def rowS_def
      skippedMarker_def em0_def plainMeta_def selectEmbedding_def fromDriver_def)

lemma search_jsonbDb:
  "performSimilaritySearch realArith pg0 ''A'' [1] em1 opts0 jsonbDb = Inr []"
  by (simp add: performSimilaritySearch_def detectEmbeddingColumnType_def jsonbDb_def opts0_def
      performSimilaritySearchWithJavaScript_def whereConditions_def rowA_def rowB_def
      em1_def plainMeta_def selectEmbedding_def fromDriver_def stableSort_def)

text \<open>
  C7. Whatever the query vector, the limit, the threshold and the scope, every row that a
  similarity search for workspace \<open>wsId\<close> returns has that workspace id: in the native
  branch, in the JSONB fallback, and in the search that chooses between them.
\<close>

theorem similarity_search_workspace_isolation:
  "(\<forall>(r, s) \<in> set (performSimilaritySearchWithPgvector ar pg q (whereConditions wsId em files) ms k db).
      workspaceId r = wsId)
   \<and> (\<forall>res. performSimilaritySearchWithJavaScript ar q (whereConditions wsId em files) ms k db = Inr res
         \<longrightarrow> (\<forall>(r, s) \<in> set res. workspaceId r = wsId))
   \<and> (\<forall>res. performSimilaritySearch ar pg wsId q em options db = Inr res
         \<longrightarrow> (\<forall>(r, s) \<in> set res. workspaceId r = wsId))"
  by (auto dest!: pgvector_results javascript_results search_results simp: whereConditions_def)

theorem similarity_search_workspace_isolation_witness:
  "performSimilaritySearch realArith pg0 ''A'' [1, 0] em0 opts0 db0 = Inr [(rowA, 1)]
   \<and> performSimilaritySearchWithJavaScript realArith [1, 0] (whereConditions ''A'' em0 None) 0 10 db0
       = Inr [(rowA, 1)]
   \<and> performSimilaritySearch realArith pg0 ''A'' [1, 0] em0 opts0 (db0\<lparr>embeddingColumn := JsonbCol\<rparr>)
       = Inl (SyntaxError ''JSON.parse: unexpected input'')
   \<and> performSimilaritySearch realArith pg0 ''A'' [1] em1 opts0 jsonbDb = Inr []
   \<and> rowB \<in> set (rows db0) \<and> workspaceId rowB = ''B''
   \<and> workspaceId rowA = ''A''"
  using similarity_search_workspace_isolation [where ar = realArith and pg = pg0 and q = "[1, 0]"
          and wsId = "''A''" and em = em0 and files = None and ms = 0 and k = 10 and db = db0
          and options = opts0]
        similarity_search_workspace_isolation [where ar = realArith and pg = pg0 and q = "[1]"
          and wsId = "''A''" and em = em1 and files = None and ms = 0 and k = 10 and db = jsonbDb
          and options = opts0]
        search_db0_vector search_db0_javascript search_db0_jsonb search_jsonbDb
  by (simp add: db0_def rowB_def rowA_def)

subsection \<open>Incremental selection\<close>

text \<open>When every stored modification time is positive, the selection is the one of the
  specification: a file of the scan is selected exactly when its size is not zero and it
  has no row for the workspace and model or is newer than the newest of its rows.\<close>

lemma mtimeStep_other:
  "row_path r \<noteq> p \<Longrightarrow> mtimeStep m r p = m p"
  by (simp add: mtimeStep_def Let_def)

lemma mtimeStep_same:
  "0 < row_mtime r \<Longrightarrow> (\<forall>v. m (row_path r) = Some v \<longrightarrow> 0 < v) \<Longrightarrow>
     mtimeStep m r (row_path r) =
       (case m (row_path r) of None \<Rightarrow> Some (row_mtime r) | Some v \<Rightarrow> Some (max v (row_mtime r)))"
  by (auto simp: mtimeStep_def Let_def split: option.splits)

lemma Max_insert_max:
  "finite S \<Longrightarrow> Max (insert (max v x) S) = max (v::int) (Max (insert x S))"
  by (cases "S = {}") (simp_all add: max.assoc)

lemma foldl_mtimeStep:
  assumes "\<forall>r \<in> set rs. 0 < row_mtime r" and "\<forall>v. m p = Some v \<longrightarrow> 0 < v"
  shows "foldl mtimeStep m rs p =
     (case m p of
        None \<Rightarrow> (if filter (\<lambda>r. row_path r = p) rs = [] then None
                  else Some (Max (row_mtime ` set (filter (\<lambda>r. row_path r = p) rs))))
      | Some v \<Rightarrow> Some (Max (insert v (row_mtime ` set (filter (\<lambda>r. row_path r = p) rs)))))"
  using assms
proof (induction rs arbitrary: m)
  case Nil
  then show ?case by (simp split: option.splits)
next
  case (Cons r rs)
  show ?case
  proof (cases "row_path r = p")
    case False
    then have "mtimeStep m r p = m p" by (rule mtimeStep_other)
    with Cons.prems False Cons.IH [of "mtimeStep m r"] show ?thesis
      by (cases "m p") simp_all
  next
    case True
    from Cons.prems True have step: "mtimeStep m r p =
       (case m p of None \<Rightarrow> Some (row_mtime r) | Some v \<Rightarrow> Some (max v (row_mtime r)))"
      using mtimeStep_same [of r m] by auto
    have pos: "\<forall>v. mtimeStep m r p = Some v \<longrightarrow> 0 < v"
      using Cons.prems by (auto simp: step split: option.splits)
    from Cons.prems have IH: "foldl mtimeStep (mtimeStep m r) rs p =
     (case mtimeStep m r p of
        None \<Rightarrow> (if filter (\<lambda>r. row_path r = p) rs = [] then None
                  else Some (Max (row_mtime ` set (filter (\<lambda>r. row_path r = p) rs))))
      | Some v \<Rightarrow> Some (Max (insert v (row_mtime ` set (filter (\<lambda>r. row_path r = p) rs)))))"
      by (intro Cons.IH pos) auto
    show ?thesis
      using True
      by (cases "m p") (simp_all add: IH step Max_insert_max)
  qed
qed

lemma set_js_unique: "set (js_unique xs) = set xs"
proof -
  have "set (foldl (\<lambda>acc x. if x \<in> set acc then acc else acc @ [x]) acc xs) = set acc \<union> set xs" for acc
    by (induction xs arbitrary: acc) auto
  then show ?thesis by (simp add: js_unique_def)
qed

lemma stored_mtime_positive:
  assumes "\<forall>r \<in> set (rows db). 0 < row_mtime r"
  shows "getFileModificationTimes wsId (getIndexedFilePaths wsId em db) em db p =
     (if filter (\<lambda>r. workspaceId r = wsId \<and> row_model r = model_id em \<and> row_path r = p) (rows db) = []
      then None
      else Some (Max (row_mtime ` set (filter (\<lambda>r. workspaceId r = wsId \<and> row_model r = model_id em
                                                   \<and> row_path r = p) (rows db)))))"
proof (cases "getIndexedFilePaths wsId em db = []")
  case True
  then have "set (getIndexedFilePaths wsId em db) = {}" by simp
  then have none: "filter (\<lambda>r. workspaceId r = wsId \<and> row_model r = model_id em) (rows db) = []"
    unfolding getIndexedFilePaths_def set_js_unique by simp
  have "filter (\<lambda>r. workspaceId r = wsId \<and> row_model r = model_id em \<and> row_path r = p) (rows db) = []"
    using none by (auto simp: filter_empty_conv)
  with True show ?thesis
    by (simp add: getFileModificationTimes_def)
next
  case False
  define sel where "sel = filter (\<lambda>r. workspaceId r = wsId \<and> row_path r \<in> set (getIndexedFilePaths wsId em db)
                          \<and> row_model r = model_id em) (rows db)"
  have sel: "sel = filter (\<lambda>r. workspaceId r = wsId \<and> row_model r = model_id em) (rows db)"
    unfolding sel_def getIndexedFilePaths_def set_js_unique
    by (rule filter_cong) auto
  have flt: "filter (\<lambda>r. row_path r = p) sel
      = filter (\<lambda>r. workspaceId r = wsId \<and> row_model r = model_id em \<and> row_path r = p) (rows db)"
    unfolding sel by (simp add: conj_commute conj_left_commute)
  have "foldl mtimeStep Map.empty sel p =
     (if filter (\<lambda>r. row_path r = p) sel = [] then None
      else Some (Max (row_mtime ` set (filter (\<lambda>r. row_path r = p) sel))))"
    using foldl_mtimeStep [of sel Map.empty p] assms by (simp add: sel)
  with False show ?thesis
    by (simp add: getFileModificationTimes_def sel_def [symmetric] flt)
qed

lemma reindex_iff_positive_mtimes:
  assumes "\<forall>r \<in> set (rows db). 0 < row_mtime r" and "f \<in> set (allFiles env)"
  shows "f \<in> set (vm_getFilesToIndex env wsId em db) \<longleftrightarrow>
     st_size (stat f) \<noteq> 0
     \<and> (filter (\<lambda>r. workspaceId r = wsId \<and> row_model r = model_id em \<and> row_path r = path f) (rows db) = []
        \<or> st_mtime (stat f) > Max (row_mtime ` set (filter (\<lambda>r. workspaceId r = wsId
               \<and> row_model r = model_id em \<and> row_path r = path f) (rows db))))"
proof -
  define S where "S = filter (\<lambda>r. workspaceId r = wsId \<and> row_model r = model_id em \<and> row_path r = path f) (rows db)"
  have pos: "0 < Max (row_mtime ` set S)" if "S \<noteq> []"
  proof -
    have "Max (row_mtime ` set S) \<in> row_mtime ` set S"
      using that by (intro Max_in) auto
    then show ?thesis using assms(1) by (auto simp: S_def)
  qed
  show ?thesis
    using assms(2) pos
    by (auto simp: vm_getFilesToIndex_def Let_def getFilesToReindex_def needsReindex_def
        stored_mtime_positive [OF assms(1)] S_def [symmetric])
qed

text \<open>
  C8. A file of size 5 whose modification time on disk is \<open>0\<close> and whose only row in the
  store, for this workspace and model, has the modification time \<open>0\<close>: the file has rows
  and its time on disk is not greater than the stored one, and yet the incremental
  update selects it for reindexing. \<^verbatim>\<open>getFileModificationTimes\<close> records no entry for a
  stored time that is not greater than \<open>0\<close>, and \<^verbatim>\<open>getFilesToReindex\<close> takes the missing
  entry for a file that was never indexed.
\<close>

theorem reindex_of_epoch_mtime:
  "vm_getFilesToIndex (env0 [epochFile]) ''A'' em0 epochDb = [epochFile]
   \<and> rows epochDb = [rowA\<lparr>row_mtime := 0\<rparr>]
   \<and> workspaceId rowA = ''A'' \<and> row_model rowA = model_id em0 \<and> row_path rowA = path epochFile
   \<and> st_size (stat epochFile) = 5
   \<and> st_mtime (stat epochFile) = row_mtime (rowA\<lparr>row_mtime := 0\<rparr>)"
  by (simp add: vm_getFilesToIndex_def getIndexedFilePaths_def js_unique_def epochDb_def rowA_def
      em0_def getFileModificationTimes_def mtimeStep_def getFilesToReindex_def needsReindex_def
      env0_def epochFile_def)

subsection \<open>Retry of embedding calls\<close>

text \<open>
  C3. When the provider answers 401, \<^verbatim>\<open>OpenAIEmbeddingClient.getEmbedding\<close> throws an
  \<^verbatim>\<open>EmbeddingError\<close>, the retry condition of the indexing loop accepts it, and the
  embedding of the chunk is called five times before the error is given up.
\<close>

theorem unauthorized_is_retried:
  "OpenAI_getEmbedding True (Inl (Some 401, ''Unauthorized''))
     = Inl (EmbeddingError ''OpenAI API key is invalid. Please update it in configuration.'')
   \<and> retryCondition (EmbeddingError ''OpenAI API key is invalid. Please update it in configuration.'')
   \<and> backOff 5 0 (embedRequest unauthorizedEnv ''A'' em0 0 chunk0) retryCondition
       = (Inl (EmbeddingError ''OpenAI API key is invalid. Please update it in configuration.''), 5)"
  by (simp add: OpenAI_getEmbedding_def retryCondition_def EmbeddingError_def embedRequest_def
      unauthorizedEnv_def env0_def numeral_eq_Suc)

subsection \<open>Concurrent rebuild requests\<close>

lemma step_never_rejects:
  "AlreadyInProgress \<notin> snd ` set (responses m) \<Longrightarrow> AlreadyInProgress \<notin> snd ` set (responses (step m e))"
  by (cases e) (auto simp: rebuildIndexHandler_def rebuildCallback_def split: option.splits sum.splits)

lemma no_request_is_rejected:
  "AlreadyInProgress \<notin> snd ` set (responses (foldl step idle events))"
proof -
  have "AlreadyInProgress \<notin> snd ` set (responses m)
          \<Longrightarrow> AlreadyInProgress \<notin> snd ` set (responses (foldl step m events))" for m
    by (induction events arbitrary: m) (simp_all add: step_never_rejects del: step.simps)
  then show ?thesis by (simp add: idle_def)
qed

text \<open>
  C1. A second rebuild request that arrives while the first one runs is not answered: it
  waits in the mutex, and when the first run is done it runs and is answered as
  completed, not as already in progress.
\<close>

theorem second_request_is_queued:
  "foldl step idle [RebuildRequest 1, RebuildRequest 2]
     = \<lparr>running = Some 1, waiting = [2], responses = []\<rparr>
   \<and> foldl step idle [RebuildRequest 1, RebuildRequest 2, IndexingDone (Inr False), IndexingDone (Inr False)]
     = \<lparr>running = None, waiting = [], responses = [(1, Completed), (2, Completed)]\<rparr>"
  by (simp add: idle_def rebuildIndexHandler_def rebuildCallback_def)

subsection \<open>The embedding loop\<close>

lemma backOff_Inr:
  "fst (backOff n a request retry) = Inr v \<Longrightarrow> \<exists>attempt. request attempt = Inr v"
  by (induction n arbitrary: a) (auto split: sum.splits if_splits)

lemma embedRequest_row:
  "embedRequest env wsId em k chunk attempt = Inr row \<Longrightarrow>
     workspaceId row = wsId \<and> row_path row = ck_path chunk \<and> row_model row = model_id em
     \<and> metadata row = ck_metadata chunk"
  by (auto simp: embedRequest_def split: if_splits sum.splits)

lemma embedChunk_row:
  assumes "fst (embedChunk env wsId em k chunk) = Some row"
  shows "workspaceId row = wsId \<and> row_path row = ck_path chunk \<and> row_model row = model_id em
     \<and> metadata row = ck_metadata chunk"
proof -
  from assms have "fst (backOff 5 0 (embedRequest env wsId em k chunk) retryCondition) = Inr row"
    by (auto simp: embedChunk_def split: if_splits sum.splits)
  then obtain attempt where "embedRequest env wsId em k chunk attempt = Inr row"
    by (auto dest: backOff_Inr)
  then show ?thesis by (rule embedRequest_row)
qed

lemma embedBatch_rows:
  assumes "row \<in> set (filterNotNull (embedBatch env wsId em i batch))"
  shows "\<exists>c \<in> set batch. workspaceId row = wsId \<and> row_path row = ck_path c
           \<and> row_model row = model_id em \<and> metadata row = ck_metadata c"
proof -
  from assms obtain j c where jc: "(j, c) \<in> set (zip [0..<length batch] batch)"
    and row: "fst (embedChunk env wsId em (i + j) c) = Some row"
    by (auto simp: filterNotNull_def embedBatch_def split: option.splits)
  from jc have "c \<in> set batch" by (rule set_zip_rightD)
  with embedChunk_row [OF row] show ?thesis by blast
qed

lemma processBatches_rows:
  "\<exists>new. rows (snd (processBatches env wsId em cs i f db)) = rows db @ new
     \<and> (\<forall>r \<in> set new. \<exists>c \<in> set cs. workspaceId r = wsId \<and> row_path r = ck_path c
           \<and> row_model r = model_id em \<and> metadata r = ck_metadata c)"
proof (induction env wsId em cs i f db rule: processBatches.induct)
  case (1 env wsId em cs i f db)
  define batch where "batch = take 10 (drop i cs)"
  define valid where "valid = filterNotNull (embedBatch env wsId em i batch)"
  define f' where "f' = f @ concat (map snd (embedBatch env wsId em i batch))"
  define db' where "db' = (if valid \<noteq> [] then insertVectors valid db else db)"
  have valid: "\<forall>r \<in> set valid. \<exists>c \<in> set cs. workspaceId r = wsId \<and> row_path r = ck_path c
           \<and> row_model r = model_id em \<and> metadata r = ck_metadata c"
  proof
    fix r assume "r \<in> set valid"
    then obtain c where "c \<in> set batch" and *: "workspaceId r = wsId \<and> row_path r = ck_path c
           \<and> row_model r = model_id em \<and> metadata r = ck_metadata c"
      unfolding valid_def using embedBatch_rows by blast
    moreover have "c \<in> set cs"
      using \<open>c \<in> set batch\<close> unfolding batch_def by (meson in_set_dropD in_set_takeD)
    ultimately show "\<exists>c \<in> set cs. workspaceId r = wsId \<and> row_path r = ck_path c
           \<and> row_model r = model_id em \<and> metadata r = ck_metadata c" by blast
  qed
  have db': "rows db' = rows db @ valid"
    unfolding db'_def by (simp add: insertVectors_def)
  show ?case
  proof (cases "i < length cs \<and> \<not> isCancelled env (BeforeBatch i) \<and> \<not> isCancelled env (AfterBatch i)")
    case False
    then show ?thesis
      by (subst processBatches.simps) (auto simp: Let_def)
  next
    case cont: True
    show ?thesis
    proof (cases "isCancelled env (AfterInsert i)")
      case True
      with cont have "snd (processBatches env wsId em cs i f db) = db'"
        by (subst processBatches.simps) (simp add: Let_def db'_def valid_def batch_def)
      with db' valid show ?thesis by auto
    next
      case False
      with cont have eq: "processBatches env wsId em cs i f db = processBatches env wsId em cs (i + 10) f' db'"
        by (subst processBatches.simps) (simp add: Let_def db'_def valid_def batch_def f'_def)
      from cont False have "\<exists>new. rows (snd (processBatches env wsId em cs (i + 10) f' db')) = rows db' @ new
         \<and> (\<forall>r \<in> set new. \<exists>c \<in> set cs. workspaceId r = wsId \<and> row_path r = ck_path c
           \<and> row_model r = model_id em \<and> metadata r = ck_metadata c)"
        unfolding f'_def db'_def valid_def batch_def
        by (intro "1.IH") auto
      then obtain new where new: "rows (snd (processBatches env wsId em cs (i + 10) f' db')) = rows db' @ new"
         "\<forall>r \<in> set new. \<exists>c \<in> set cs. workspaceId r = wsId \<and> row_path r = ck_path c
           \<and> row_model r = model_id em \<and> metadata r = ck_metadata c" by blast
      have "rows (snd (processBatches env wsId em cs i f db)) = rows db @ (valid @ new)"
        using eq new(1) db' by simp
      moreover have "\<forall>r \<in> set (valid @ new). \<exists>c \<in> set cs. workspaceId r = wsId \<and> row_path r = ck_path c
           \<and> row_model r = model_id em \<and> metadata r = ck_metadata c"
        using valid new(2) by auto
      ultimately show ?thesis by blast
    qed
  qed
qed




subsection \<open>The rows written by an update\<close>

lemma js_split_nl_nonempty: "js_split_nl s \<noteq> []"
  by (induction s) (auto split: list.splits)

lemma js_split_nl_length: "Suc 0 \<le> length (js_split_nl s)"
  using js_split_nl_nonempty [of s] by (cases "js_split_nl s") auto

lemma calculateLineNumbers_range:
  "calculateLineNumbers originalContent chunkContent = (sl, el) \<Longrightarrow> 1 \<le> sl \<and> sl \<le> el"
proof -
  assume eq: "calculateLineNumbers originalContent chunkContent = (sl, el)"
  from eq show ?thesis
    using js_split_nl_length [of chunkContent]
    by (auto simp: calculateLineNumbers_def Let_def split: option.splits)
qed

lemma createChunks_metadata:
  assumes "c \<in> set (createChunks sp content p mt)"
  shows "ck_path c = p \<and> skipped (ck_metadata c) = None
         \<and> 1 \<le> startLine (ck_metadata c) \<and> startLine (ck_metadata c) \<le> endLine (ck_metadata c)"
proof (cases "sp content")
  case None
  with assms show ?thesis
    using js_split_nl_length [of content] by (auto simp: createChunks_def)
next
  case (Some documents)
  with assms obtain d where c: "c = (let (sl, el) = calculateLineNumbers content d
                  in \<lparr>ck_path = p, ck_mtime = mt, ck_content = d,
                      ck_metadata = \<lparr>startLine = sl, endLine = el, skipped = None, reason = None,
                                      originalSize = None\<rparr>\<rparr>)"
    by (auto simp: createChunks_def)
  obtain sl el where le: "calculateLineNumbers content d = (sl, el)"
    by (cases "calculateLineNumbers content d")
  from calculateLineNumbers_range [OF le] c le show ?thesis
    by simp
qed

lemma processChunks_metadata:
  "c \<in> set (processChunks n cs) \<Longrightarrow> \<exists>c' \<in> set cs. ck_path c = ck_path c' \<and> ck_metadata c = ck_metadata c'"
  by (auto simp: processChunks_def)

lemma foldl_readStep:
  "foldl (readStep env) acc files =
     (fst acc @ concat (map (\<lambda>f. fst (readStep env ([], [], []) f)) files),
      fst (snd acc) @ concat (map (\<lambda>f. fst (snd (readStep env ([], [], []) f))) files),
      snd (snd acc) @ concat (map (\<lambda>f. snd (snd (readStep env ([], [], []) f))) files))"
proof (induction files arbitrary: acc)
  case Nil
  then show ?case by simp
next
  case (Cons f files)
  have step: "readStep env acc f =
     (fst acc @ fst (readStep env ([], [], []) f),
      fst (snd acc) @ fst (snd (readStep env ([], [], []) f)),
      snd (snd acc) @ snd (snd (readStep env ([], [], []) f)))"
    by (cases acc) (auto simp: readStep_def split: sum.splits)
  show ?case
    by (simp add: Cons.IH) (simp add: step)
qed

lemma prepareContentChunks_eq:
  "prepareContentChunks env files =
     (processChunks (chunkSize env) (createChunksForFiles (splitter env)
        (concat (map (\<lambda>f. snd (snd (readStep env ([], [], []) f))) files))),
      concat (map (\<lambda>f. fst (readStep env ([], [], []) f)) files),
      concat (map (\<lambda>f. fst (snd (readStep env ([], [], []) f))) files))"
  by (simp add: prepareContentChunks_def foldl_readStep)

lemma readStep_contents:
  "(p, content, mt) \<in> set (snd (snd (readStep env ([], [], []) f))) \<Longrightarrow>
     p = path f \<and> processedContent env p = Inr content \<and> js_trim content \<noteq> []"
  by (auto simp: readStep_def split: sum.splits if_splits)

lemma readStep_skipped:
  "processedContent env (path f) = Inr content \<Longrightarrow> js_trim content = [] \<Longrightarrow>
     fst (snd (readStep env ([], [], []) f)) =
       [(path f, if st_size (stat f) = 0 then ''File is empty (size: 0 bytes)''
                 else ''File contains no indexable content after processing'', st_size (stat f))]"
  by (simp add: readStep_def)

lemma readStep_skipped_path:
  "s \<in> set (fst (snd (readStep env ([], [], []) f))) \<Longrightarrow> fst s = path f"
  by (auto simp: readStep_def split: sum.splits if_splits)

lemma prepared_chunk:
  assumes "c \<in> set (fst (prepareContentChunks env files))"
  shows "skipped (ck_metadata c) = None
         \<and> 1 \<le> startLine (ck_metadata c) \<and> startLine (ck_metadata c) \<le> endLine (ck_metadata c)
         \<and> (\<exists>content. processedContent env (ck_path c) = Inr content \<and> js_trim content \<noteq> [])"
proof -
  from assms obtain c' where c': "c' \<in> set (createChunksForFiles (splitter env)
        (concat (map (\<lambda>f. snd (snd (readStep env ([], [], []) f))) files)))"
    and same: "ck_path c = ck_path c'" "ck_metadata c = ck_metadata c'"
    unfolding prepareContentChunks_eq by (auto dest: processChunks_metadata)
  from c' obtain p content mt f where f: "f \<in> set files"
    and pc: "(p, content, mt) \<in> set (snd (snd (readStep env ([], [], []) f)))"
    and c'': "c' \<in> set (createChunks (splitter env) content p mt)"
    by (auto simp: createChunksForFiles_def)
  from createChunks_metadata [OF c''] readStep_contents [OF pc] same show ?thesis
    by auto
qed


lemma recordSkippedFiles_rows:
  "rows (recordSkippedFiles sk files wsId em db) =
     rows db @ concat (map (\<lambda>s. case map_of (rev (map (\<lambda>f. (path f, f)) files)) (fst s) of
                                   None \<Rightarrow> [] | Some fi \<Rightarrow> [skippedMarker wsId em fi s]) sk)"
  by (simp add: recordSkippedFiles_def insertVectors_def Let_def)

lemma select_rows_subset:
  "set (rows (snd (selectFilesToIndex env wsId em ra db))) \<subseteq> set (rows db)"
  by (auto simp: selectFilesToIndex_def Let_def clearAllVectors_def deleteVectorsForMultipleFiles_def
      vm_deleteVectorsForDeletedFiles_def repo_deleteVectorsForDeletedFiles_def)

lemma select_files_subset:
  "set (fst (selectFilesToIndex env wsId em ra db)) \<subseteq> set (allFiles env)"
  by (auto simp: selectFilesToIndex_def Let_def vm_getFilesToIndex_def getFilesToReindex_def)

lemma select_files_distinct:
  "distinct (map path (allFiles env)) \<Longrightarrow> distinct (map path (fst (selectFilesToIndex env wsId em ra db)))"
  by (auto simp: selectFilesToIndex_def Let_def vm_getFilesToIndex_def getFilesToReindex_def
      distinct_map_filter)

lemma select_cleared:
  assumes "f \<in> set (fst (selectFilesToIndex env wsId em ra db))"
  shows "filter (\<lambda>r. workspaceId r = wsId \<and> row_path r = path f \<and> row_model r = model_id em)
           (rows (snd (selectFilesToIndex env wsId em ra db))) = []"
proof (cases ra)
  case True
  then show ?thesis
    by (auto simp: selectFilesToIndex_def clearAllVectors_def filter_empty_conv)
next
  case False
  define db1 where "db1 = vm_deleteVectorsForDeletedFiles env wsId em db"
  define files where "files = vm_getFilesToIndex env wsId em db1"
  from assms False have f: "f \<in> set files" and ne: "files \<noteq> []"
    by (auto simp: selectFilesToIndex_def Let_def files_def db1_def split: if_splits)
  from False ne have "snd (selectFilesToIndex env wsId em ra db)
      = deleteVectorsForMultipleFiles wsId (map path files) em db1"
    by (simp add: selectFilesToIndex_def Let_def files_def db1_def)
  with f ne show ?thesis
    by (auto simp: deleteVectorsForMultipleFiles_def filter_empty_conv)
qed

lemma update_rows:
  assumes sel: "selectFilesToIndex env wsId em ra (db :: ('n::zero) database) = (files, db1)"
  shows "\<exists>markers new.
     rows (snd (updateVaultIndexInternal env wsId em ra db)) = rows db1 @ markers @ new
     \<and> (markers = [] \<or> markers =
          concat (map (\<lambda>s. case map_of (rev (map (\<lambda>f. (path f, f)) files)) (fst s) of
                              None \<Rightarrow> [] | Some fi \<Rightarrow> [skippedMarker wsId em fi s])
                      (snd (snd (prepareContentChunks env files)))))
     \<and> (files \<noteq> [] \<and> \<not> isCancelled env AfterPrepare \<longrightarrow> markers =
          concat (map (\<lambda>s. case map_of (rev (map (\<lambda>f. (path f, f)) files)) (fst s) of
                              None \<Rightarrow> [] | Some fi \<Rightarrow> [skippedMarker wsId em fi s])
                      (snd (snd (prepareContentChunks env files)))))
     \<and> (\<forall>r \<in> set new. \<exists>c \<in> set (fst (prepareContentChunks env files)).
            workspaceId r = wsId \<and> row_path r = ck_path c \<and> row_model r = model_id em
            \<and> metadata r = ck_metadata c)"
proof -
  obtain chunks failedFiles skippedFiles
    where prep: "prepareContentChunks env files = (chunks, failedFiles, skippedFiles)"
    by (cases "prepareContentChunks env files") auto
  define M :: "'n InsertEmbedding list" where "M = concat (map (\<lambda>s. case map_of (rev (map (\<lambda>f. (path f, f)) files)) (fst s) of
                              None \<Rightarrow> [] | Some fi \<Rightarrow> [skippedMarker wsId em fi s]) skippedFiles)"
  define db2 where "db2 = (if skippedFiles \<noteq> [] then recordSkippedFiles skippedFiles files wsId em db1 else db1)"
  have db2: "rows db2 = rows db1 @ M"
    unfolding db2_def M_def by (simp add: recordSkippedFiles_rows)
  show ?thesis
  proof (cases "files = [] \<or> isCancelled env AfterPrepare")
    case True
    then have "snd (updateVaultIndexInternal env wsId em ra db) = db1"
      by (auto simp: updateVaultIndexInternal_def sel prep)
    then show ?thesis
      using True by (intro exI [of _ "[]"]) auto
  next
    case go: False
    show ?thesis
    proof (cases "chunks = []")
      case True
      with go have "snd (updateVaultIndexInternal env wsId em ra db) = db2"
        by (auto simp: updateVaultIndexInternal_def sel prep db2_def Let_def)
      with db2 show ?thesis
        unfolding prep M_def by (intro exI [of _ M] exI [of _ "[]"]) (simp add: M_def)
    next
      case False
      with go have eq: "snd (updateVaultIndexInternal env wsId em ra db)
          = snd (processBatches env wsId em chunks 0 [] db2)"
        by (auto simp: updateVaultIndexInternal_def sel prep db2_def Let_def processEmbeddings_def
            split: prod.splits)
      obtain new where new: "rows (snd (processBatches env wsId em chunks 0 [] db2)) = rows db2 @ new"
        "\<forall>r \<in> set new. \<exists>c \<in> set chunks. workspaceId r = wsId \<and> row_path r = ck_path c
           \<and> row_model r = model_id em \<and> metadata r = ck_metadata c"
        using processBatches_rows by blast
      show ?thesis
        using eq new db2 unfolding prep
        by (intro exI [of _ M] exI [of _ new]) (simp add: M_def)
    qed
  qed
qed


lemma concat_map_single:
  "distinct xs \<Longrightarrow> x \<in> set xs \<Longrightarrow> (\<forall>y \<in> set xs. y \<noteq> x \<longrightarrow> k y = []) \<Longrightarrow> concat (map k xs) = k x"
proof (induction xs)
  case Nil
  then show ?case by simp
next
  case (Cons z zs)
  show ?case
  proof (cases "z = x")
    case True
    with Cons.prems have "\<forall>y \<in> set zs. k y = []" by auto
    then have "concat (map k zs) = []" by simp
    with True show ?thesis by simp
  next
    case False
    with Cons show ?thesis by auto
  qed
qed

lemma fileMap_lookup:
  assumes "distinct (map path files)" and "f \<in> set files"
  shows "map_of (rev (map (\<lambda>f. (path f, f)) files)) (path f) = Some f"
proof -
  have "distinct (map fst (rev (map (\<lambda>f. (path f, f)) files)))"
    using assms(1) by (simp add: rev_map [symmetric] comp_def)
  moreover have "(path f, f) \<in> set (rev (map (\<lambda>f. (path f, f)) files))"
    using assms(2) by auto
  ultimately show ?thesis
    by (simp only: map_of_eq_Some_iff)
qed

lemma skippedMarker_fields:
  "workspaceId (skippedMarker wsId em fi s) = wsId \<and> row_path (skippedMarker wsId em fi s) = fst s
   \<and> row_model (skippedMarker wsId em fi s) = model_id em
   \<and> skipped (metadata (skippedMarker wsId em fi s)) = Some True
   \<and> startLine (metadata (skippedMarker wsId em fi s)) = 0
   \<and> endLine (metadata (skippedMarker wsId em fi s)) = 0"
  by (cases s) (simp add: skippedMarker_def)

lemma markers_for_path:
  assumes dist: "distinct (map path files)" and f: "f \<in> set files"
    and blank: "processedContent env (path f) = Inr content" "js_trim content = []"
  shows "filter (\<lambda>r :: ('n::zero) InsertEmbedding.
                    workspaceId r = wsId \<and> row_path r = path f \<and> row_model r = model_id em)
           (concat (map (\<lambda>s. case map_of (rev (map (\<lambda>f. (path f, f)) files)) (fst s) of
                              None \<Rightarrow> [] | Some fi \<Rightarrow> [skippedMarker wsId em fi s])
                      (snd (snd (prepareContentChunks env files)))))
         = [skippedMarker wsId em f
              (path f, if st_size (stat f) = 0 then ''File is empty (size: 0 bytes)''
                       else ''File contains no indexable content after processing'', st_size (stat f))]"
proof -
  define h :: "string \<times> string \<times> nat \<Rightarrow> 'n InsertEmbedding list"
    where "h = (\<lambda>s. case map_of (rev (map (\<lambda>f. (path f, f)) files)) (fst s) of
                              None \<Rightarrow> [] | Some fi \<Rightarrow> [skippedMarker wsId em fi s])"
  define P :: "'n InsertEmbedding \<Rightarrow> bool"
    where "P = (\<lambda>r. workspaceId r = wsId \<and> row_path r = path f \<and> row_model r = model_id em)"
  define k where "k = (\<lambda>f'. filter P (concat (map h (fst (snd (readStep env ([], [], []) f'))))))"
  have flat: "filter P (concat (map h (concat (map g fs)))) = concat (map (\<lambda>f'. filter P (concat (map h (g f')))) fs)"
    for g :: "FileInfo \<Rightarrow> (string \<times> string \<times> nat) list" and fs
    by (induction fs) simp_all
  have hpath: "row_path r = fst s" if "r \<in> set (h s)" for r s
    using that by (auto simp: h_def skippedMarker_fields split: option.splits)
  have others: "\<forall>y \<in> set files. y \<noteq> f \<longrightarrow> k y = []"
  proof (intro ballI impI)
    fix y assume y: "y \<in> set files" "y \<noteq> f"
    with dist f have "path y \<noteq> path f"
      by (meson distinct_map inj_onD)
    then show "k y = []"
      unfolding k_def P_def
      by (auto simp: filter_empty_conv dest!: hpath readStep_skipped_path)
  qed
  have files: "distinct files"
    using dist by (simp add: distinct_map)
  have "k f = [skippedMarker wsId em f
              (path f, if st_size (stat f) = 0 then ''File is empty (size: 0 bytes)''
                       else ''File contains no indexable content after processing'', st_size (stat f))]"
    unfolding k_def readStep_skipped [OF blank]
    by (simp add: h_def fileMap_lookup [OF dist f] P_def skippedMarker_def)
  moreover have "concat (map k files) = k f"
    using files f others by (rule concat_map_single)
  ultimately show ?thesis
    unfolding prepareContentChunks_eq
    by (simp add: flat h_def [symmetric] P_def [symmetric] k_def [symmetric])
qed

lemma prepare_mixed:
  "prepareContentChunks mixedEnv [fileA, fileS] =
     ([\<lparr>ck_path = ''a.md'', ck_mtime = 5, ck_content = ''text'', ck_metadata = plainMeta\<rparr>], [],
      [(''s.md'', ''File is empty (size: 0 bytes)'', 0)])"
  by (simp add: prepareContentChunks_def readStep_def mixedEnv_def env0_def fileA_def fileS_def
      js_trim_def js_isSpace_def createChunksForFiles_def createChunks_def calculateLineNumbers_def
      findChunkLines.simps processChunks_def sanitizeContent_def validateChunk_def plainMeta_def)

lemma embed_mixed:
  "processEmbeddings mixedEnv ''A'' em0
     [\<lparr>ck_path = ''a.md'', ck_mtime = 5, ck_content = ''text'', ck_metadata = plainMeta\<rparr>] db
   = (Inr False, db\<lparr>rows := rows db @ [rowT]\<rparr>)"
  by (simp add: processEmbeddings_def processBatches.simps embedBatch_def embedChunk_def
      embedRequest_def mixedEnv_def env0_def numeral_eq_Suc filterNotNull_def insertVectors_def
      rowT_def rowA_def em0_def)

lemma select_mixed:
  "selectFilesToIndex mixedEnv ''A'' em0 True db = ([fileA, fileS], clearAllVectors ''A'' em0 db)"
  by (simp add: selectFilesToIndex_def mixedEnv_def env0_def)

lemma record_mixed:
  "recordSkippedFiles [(''s.md'', ''File is empty (size: 0 bytes)'', 0)] [fileA, fileS] ''A'' em0 db
     = db\<lparr>rows := rows db @ [rowS]\<rparr>"
  by (simp add: recordSkippedFiles_def fileA_def fileS_def insertVectors_def rowS_def)

lemma update_mixed:
  "updateVaultIndexInternal mixedEnv ''A'' em0 True db =
     (Inr False, db\<lparr>rows := filter (\<lambda>r. \<not> (workspaceId r = ''A'' \<and> row_model r = ''m'')) (rows db)
                              @ [rowS, rowT]\<rparr>)"
  by (simp add: updateVaultIndexInternal_def select_mixed prepare_mixed record_mixed embed_mixed)
     (simp add: mixedEnv_def env0_def clearAllVectors_def em0_def)

lemma update_mixed_locked:
  "updateVaultIndex mixedEnv ''A'' em0 True (db0\<lparr>rows := []\<rparr>) = (Inr False, db0\<lparr>rows := [rowS, rowT]\<rparr>)"
  by (simp add: updateVaultIndex_def withAdvisoryLock_def update_mixed acquireAdvisoryLock_def
      releaseAdvisoryLock_def db0_def)

text \<open>
  C6 (amended). In a run that is not cancelled at the checkpoint after the files are read
  and chunked, with a scan that lists every path once: for every file that the run reads
  and whose content is blank after extraction and cleaning, the rows of the workspace,
  path and model after the run are exactly one marker row, with the zero vector of the
  model's dimension, the content \<^verbatim>\<open>[SKIPPED: No indexable content]\<close> and
  \<^verbatim>\<open>skipped = true\<close>. And a similarity search returns no row whose \<^verbatim>\<open>skipped\<close> is true.
\<close>

theorem skipped_file_marker:
  "(distinct (map path (allFiles env)) \<and> \<not> isCancelled env AfterPrepare
      \<and> f \<in> set (fst (selectFilesToIndex env wsId em reindexAll db))
      \<and> processedContent env (path f) = Inr content \<and> js_trim content = [] \<longrightarrow>
      (\<exists>rsn. filter (\<lambda>r. workspaceId r = wsId \<and> row_path r = path f \<and> row_model r = model_id em)
                (rows (snd (updateVaultIndexInternal env wsId em reindexAll (db :: ('n::zero) database))))
         = [\<lparr>workspaceId = wsId, row_path = path f, row_mtime = st_mtime (stat f),
             row_content = ''[SKIPPED: No indexable content]'', row_model = model_id em,
             row_dimension = dimension em, embedding = replicate (dimension em) 0,
             metadata = \<lparr>startLine = 0, endLine = 0, skipped = Some True, reason = Some rsn,
                         originalSize = Some (st_size (stat f))\<rparr>\<rparr>]))
   \<and> (\<forall>res. performSimilaritySearch ar d wsId' q em' options db' = Inr res
         \<longrightarrow> (\<forall>(r, s) \<in> set res. skipped (metadata r) \<noteq> Some True))"
proof (intro conjI impI allI)
  assume a: "distinct (map path (allFiles env)) \<and> \<not> isCancelled env AfterPrepare
      \<and> f \<in> set (fst (selectFilesToIndex env wsId em reindexAll db))
      \<and> processedContent env (path f) = Inr content \<and> js_trim content = []"
  obtain files db1 where sel: "selectFilesToIndex env wsId em reindexAll db = (files, db1)"
    by (cases "selectFilesToIndex env wsId em reindexAll db") auto
  define P :: "'n InsertEmbedding \<Rightarrow> bool"
    where "P = (\<lambda>r. workspaceId r = wsId \<and> row_path r = path f \<and> row_model r = model_id em)"
  define M :: "'n InsertEmbedding list" where "M = concat (map (\<lambda>s. case map_of (rev (map (\<lambda>f. (path f, f)) files)) (fst s) of
                              None \<Rightarrow> [] | Some fi \<Rightarrow> [skippedMarker wsId em fi s])
                      (snd (snd (prepareContentChunks env files))))"
  from a sel have f: "f \<in> set files" by simp
  then have ne: "files \<noteq> []" by auto
  have dist: "distinct (map path files)"
    using select_files_distinct [of env wsId em reindexAll db] a sel by simp
  from update_rows [OF sel] obtain markers new where
    rows0: "rows (snd (updateVaultIndexInternal env wsId em reindexAll db)) = rows db1 @ markers @ new"
    and markers: "files \<noteq> [] \<and> \<not> isCancelled env AfterPrepare \<longrightarrow> markers = M"
    and new: "\<forall>r \<in> set new. \<exists>c \<in> set (fst (prepareContentChunks env files)).
            workspaceId r = wsId \<and> row_path r = ck_path c \<and> row_model r = model_id em
            \<and> metadata r = ck_metadata c"
    unfolding M_def by blast
  from markers ne a have "markers = M" by simp
  with rows0 have rows: "rows (snd (updateVaultIndexInternal env wsId em reindexAll db)) = rows db1 @ M @ new"
    by simp
  have old: "filter P (rows db1) = []"
    using select_cleared [of f env wsId em reindexAll db] a sel unfolding P_def by simp
  have fresh: "filter P new = []"
  proof -
    have "\<not> P r" if "r \<in> set new" for r
    proof
      assume "P r"
      from new that obtain c where c: "c \<in> set (fst (prepareContentChunks env files))"
        and "row_path r = ck_path c" by blast
      with \<open>P r\<close> have "ck_path c = path f" by (simp add: P_def)
      with prepared_chunk [OF c] a show False by auto
    qed
    then show ?thesis by (simp add: filter_empty_conv)
  qed
  have mark: "filter P M = [skippedMarker wsId em f
              (path f, if st_size (stat f) = 0 then ''File is empty (size: 0 bytes)''
                       else ''File contains no indexable content after processing'', st_size (stat f))]"
    unfolding P_def M_def using dist f a by (intro markers_for_path) auto
  show "\<exists>rsn. filter (\<lambda>r. workspaceId r = wsId \<and> row_path r = path f \<and> row_model r = model_id em)
                (rows (snd (updateVaultIndexInternal env wsId em reindexAll db)))
         = [\<lparr>workspaceId = wsId, row_path = path f, row_mtime = st_mtime (stat f),
             row_content = ''[SKIPPED: No indexable content]'', row_model = model_id em,
             row_dimension = dimension em, embedding = replicate (dimension em) 0,
             metadata = \<lparr>startLine = 0, endLine = 0, skipped = Some True, reason = Some rsn,
                         originalSize = Some (st_size (stat f))\<rparr>\<rparr>]"
    unfolding rows P_def [symmetric]
    by (simp add: old fresh mark skippedMarker_def)
next
  fix res
  assume "performSimilaritySearch ar d wsId' q em' options db' = Inr res"
  then show "\<forall>(r, s) \<in> set res. skipped (metadata r) \<noteq> Some True"
    by (auto dest!: search_results simp: whereConditions_def)
qed

theorem skipped_file_marker_witness:
  "distinct (map path (allFiles mixedEnv)) \<and> \<not> isCancelled mixedEnv AfterPrepare
   \<and> fileS \<in> set (fst (selectFilesToIndex mixedEnv ''A'' em0 True db0))
   \<and> processedContent mixedEnv (path fileS) = Inr [] \<and> js_trim [] = []
   \<and> filter (\<lambda>r. workspaceId r = ''A'' \<and> row_path r = path fileS \<and> row_model r = model_id em0)
        (rows (snd (updateVaultIndexInternal mixedEnv ''A'' em0 True db0))) = [rowS]
   \<and> embedding rowS = [0, 0] \<and> row_content rowS = ''[SKIPPED: No indexable content]''
   \<and> skipped (metadata rowS) = Some True
   \<and> rowS \<in> set (rows db0)
   \<and> performSimilaritySearch realArith pg0 ''A'' [1, 0] em0 opts0 db0 = Inr [(rowA, 1)]"
  using skipped_file_marker [where env = mixedEnv and f = fileS and wsId = "''A''" and em = em0
          and reindexAll = True and db = db0 and content = "[]" and ar = realArith and d = pg0
          and wsId' = "''A''"
          and q = "[1, 0]" and em' = em0 and options = opts0 and db' = db0]
        search_db0_vector
  by (simp add: update_mixed select_mixed)
     (simp add: mixedEnv_def env0_def fileA_def fileS_def js_trim_def db0_def rowA_def rowB_def
        rowS_def rowT_def skippedMarker_def em0_def numeral_eq_Suc)

text \<open>
  C6 as stated fails when the run is cancelled while the files are read: the empty file
  is read and found blank, the run returns at the checkpoint after the preparation, and
  the table holds no row for the file.
\<close>

theorem no_marker_when_cancelled:
  "fileS \<in> set (fst (selectFilesToIndex cancelledMixedEnv ''A'' em0 True db0))
   \<and> processedContent cancelledMixedEnv (path fileS) = Inr []
   \<and> updateVaultIndexInternal cancelledMixedEnv ''A'' em0 True db0 = (Inr True, db0\<lparr>rows := [rowB]\<rparr>)
   \<and> filter (\<lambda>r. workspaceId r = ''A'' \<and> row_path r = path fileS \<and> row_model r = model_id em0)
        (rows (db0\<lparr>rows := [rowB]\<rparr>)) = []"
proof -
  have sel: "selectFilesToIndex cancelledMixedEnv ''A'' em0 True db0
      = ([fileA, fileS], db0\<lparr>rows := [rowB]\<rparr>)"
    by (simp add: selectFilesToIndex_def cancelledMixedEnv_def mixedEnv_def env0_def
        clearAllVectors_def db0_def rowA_def rowB_def rowS_def skippedMarker_def em0_def)
  have run: "updateVaultIndexInternal cancelledMixedEnv ''A'' em0 True db0 = (Inr True, db0\<lparr>rows := [rowB]\<rparr>)"
    by (simp add: updateVaultIndexInternal_def sel split: prod.splits)
       (simp add: cancelledMixedEnv_def)
  show ?thesis
    by (simp add: sel run)
       (simp add: cancelledMixedEnv_def mixedEnv_def fileS_def rowB_def rowA_def)
qed

text \<open>
  C4 (amended). Every row that is in the table after an update was there before, or is a
  skipped marker row with \<open>startLine = endLine = 0\<close>, or is a chunk row with
  \<open>1 \<le> startLine \<le> endLine\<close>.
\<close>

theorem persisted_line_numbers:
  "\<forall>r \<in> set (rows (snd (updateVaultIndex env wsId em reindexAll db))).
     r \<in> set (rows db)
     \<or> (if skipped (metadata r) = Some True
         then startLine (metadata r) = 0 \<and> endLine (metadata r) = 0
         else 1 \<le> startLine (metadata r) \<and> startLine (metadata r) \<le> endLine (metadata r))"
proof
  fix r
  define dbL where "dbL = acquireAdvisoryLock wsId db"
  assume "r \<in> set (rows (snd (updateVaultIndex env wsId em reindexAll db)))"
  then have r: "r \<in> set (rows (snd (updateVaultIndexInternal env wsId em reindexAll dbL)))"
    by (simp add: updateVaultIndex_def withAdvisoryLock_def releaseAdvisoryLock_def dbL_def
        split: prod.splits)
  obtain files db1 where sel: "selectFilesToIndex env wsId em reindexAll dbL = (files, db1)"
    by (cases "selectFilesToIndex env wsId em reindexAll dbL") auto
  from update_rows [OF sel] obtain markers new where
    rows: "rows (snd (updateVaultIndexInternal env wsId em reindexAll dbL)) = rows db1 @ markers @ new"
    and markers: "markers = [] \<or> markers =
          concat (map (\<lambda>s. case map_of (rev (map (\<lambda>f. (path f, f)) files)) (fst s) of
                              None \<Rightarrow> [] | Some fi \<Rightarrow> [skippedMarker wsId em fi s])
                      (snd (snd (prepareContentChunks env files))))"
    and new: "\<forall>r \<in> set new. \<exists>c \<in> set (fst (prepareContentChunks env files)).
            workspaceId r = wsId \<and> row_path r = ck_path c \<and> row_model r = model_id em
            \<and> metadata r = ck_metadata c"
    by blast
  from r rows consider "r \<in> set (rows db1)" | "r \<in> set markers" | "r \<in> set new"
    by auto
  then show "r \<in> set (rows db)
     \<or> (if skipped (metadata r) = Some True
         then startLine (metadata r) = 0 \<and> endLine (metadata r) = 0
         else 1 \<le> startLine (metadata r) \<and> startLine (metadata r) \<le> endLine (metadata r))"
  proof cases
    case 1
    with select_rows_subset [of env wsId em reindexAll dbL] sel have "r \<in> set (rows dbL)"
      by auto
    then show ?thesis by (simp add: dbL_def acquireAdvisoryLock_def)
  next
    case 2
    with markers have "skipped (metadata r) = Some True \<and> startLine (metadata r) = 0
        \<and> endLine (metadata r) = 0"
      by (auto simp: skippedMarker_fields split: option.splits)
    then show ?thesis by simp
  next
    case 3
    with new obtain c where c: "c \<in> set (fst (prepareContentChunks env files))"
      and "metadata r = ck_metadata c" by blast
    with prepared_chunk [OF c] show ?thesis by simp
  qed
qed

theorem persisted_line_numbers_witness:
  "rows (snd (updateVaultIndex mixedEnv ''A'' em0 True (db0\<lparr>rows := []\<rparr>))) = [rowS, rowT]
   \<and> skipped (metadata rowS) = Some True \<and> startLine (metadata rowS) = 0 \<and> endLine (metadata rowS) = 0
   \<and> skipped (metadata rowT) = None \<and> 1 \<le> startLine (metadata rowT)
   \<and> startLine (metadata rowT) \<le> endLine (metadata rowT)"
  using persisted_line_numbers [of mixedEnv "''A''" em0 True "db0\<lparr>rows := []\<rparr>"]
  by (simp add: update_mixed_locked)
     (simp add: rowS_def rowT_def rowA_def skippedMarker_def plainMeta_def)

text \<open>
  C4 as stated fails on the marker rows: a full rebuild of a workspace with an empty file
  writes a row whose \<open>startLine\<close> and \<open>endLine\<close> are \<open>0\<close>.
\<close>

theorem marker_row_has_line_zero:
  "updateVaultIndex mixedEnv ''A'' em0 True (db0\<lparr>rows := []\<rparr>) = (Inr False, db0\<lparr>rows := [rowS, rowT]\<rparr>)
   \<and> skipped (metadata rowS) = Some True
   \<and> startLine (metadata rowS) = 0 \<and> endLine (metadata rowS) = 0
   \<and> \<not> 1 \<le> startLine (metadata rowS)"
  by (simp add: update_mixed_locked) (simp add: rowS_def skippedMarker_def)

subsection \<open>Schema dimension\<close>

text \<open>
  C2 (amended). The comparison of the declared dimension with the dimension of the model
  is made at the initialisation of the engine and only prints a warning: it returns
  normally in every case, and the warning is printed exactly when the declared dimension
  is not that of the model. An index update does not consult the declared dimension: a
  full rebuild deletes the rows of the workspace and model whatever the declared
  dimension is, and the table after it is the rest of the old rows followed by what the
  run has added.
\<close>

theorem dimension_mismatch_only_warns:
  "fst (RAGEngine_validateSchemaDimension em db) = Inr ()
   \<and> (snd (RAGEngine_validateSchemaDimension em db) = []) = (getSchemaDimension db = Some (dimension em))
   \<and> (\<exists>added. rows (snd (updateVaultIndex env wsId em True db))
         = filter (\<lambda>r. \<not> (workspaceId r = wsId \<and> row_model r = model_id em)) (rows db) @ added)"
proof -
  define dbL where "dbL = acquireAdvisoryLock wsId db"
  have sel: "selectFilesToIndex env wsId em True dbL = (allFiles env, clearAllVectors wsId em dbL)"
    by (simp add: selectFilesToIndex_def)
  from update_rows [OF sel] obtain markers new where
    "rows (snd (updateVaultIndexInternal env wsId em True dbL))
       = rows (clearAllVectors wsId em dbL) @ markers @ new"
    by blast
  moreover have "rows (snd (updateVaultIndex env wsId em True db))
      = rows (snd (updateVaultIndexInternal env wsId em True dbL))"
    by (simp add: updateVaultIndex_def withAdvisoryLock_def releaseAdvisoryLock_def dbL_def
        split: prod.splits)
  moreover have "rows (clearAllVectors wsId em dbL)
      = filter (\<lambda>r. \<not> (workspaceId r = wsId \<and> row_model r = model_id em)) (rows db)"
    by (simp add: clearAllVectors_def dbL_def acquireAdvisoryLock_def)
  ultimately have "\<exists>added. rows (snd (updateVaultIndex env wsId em True db))
         = filter (\<lambda>r. \<not> (workspaceId r = wsId \<and> row_model r = model_id em)) (rows db) @ added"
    by simp
  moreover have "fst (RAGEngine_validateSchemaDimension em db) = Inr ()"
    by (simp add: RAGEngine_validateSchemaDimension_def Let_def)
  moreover have "(snd (RAGEngine_validateSchemaDimension em db) = []) = (getSchemaDimension db = Some (dimension em))"
    by (auto simp: RAGEngine_validateSchemaDimension_def validateSchemaDimension_def Let_def
        split: option.splits)
  ultimately show ?thesis by blast
qed

text \<open>
  C2 as stated fails: the declared dimension is 2 and the model is configured with
  dimension 3; the validation returns normally with a warning, and a full rebuild of a
  workspace in which the scan finds no file (so that no row is inserted) deletes the
  rows of the workspace and model and returns normally.
\<close>

theorem update_despite_dimension_mismatch:
  "getSchemaDimension db0 = Some 2 \<and> dimension em3 = 3
   \<and> RAGEngine_validateSchemaDimension em3 db0
       = (Inr (), [''SCHEMA DIMENSION MISMATCH DETECTED: Schema dimension mismatch''])
   \<and> rows db0 = [rowA, rowB, rowS]
   \<and> fst (selectFilesToIndex (env0 []) ''A'' em3 True db0) = []
   \<and> updateVaultIndex (env0 []) ''A'' em3 True db0 = (Inr False, db0\<lparr>rows := [rowB]\<rparr>)"
proof -
  have run: "updateVaultIndexInternal (env0 []) ''A'' em3 True db =
     (Inr False, db\<lparr>rows := filter (\<lambda>r. \<not> (workspaceId r = ''A'' \<and> row_model r = ''m'')) (rows db)\<rparr>)"
    for db :: "real database"
    by (simp add: updateVaultIndexInternal_def selectFilesToIndex_def env0_def clearAllVectors_def
        em3_def)
  show ?thesis
    by (simp add: getSchemaDimension_def RAGEngine_validateSchemaDimension_def
      validateSchemaDimension_def Let_def
      updateVaultIndex_def withAdvisoryLock_def acquireAdvisoryLock_def releaseAdvisoryLock_def run
      selectFilesToIndex_def)
       (simp add: db0_def em3_def rowA_def rowB_def rowS_def skippedMarker_def em0_def env0_def)
qed

end
